theory Spec2Isabelle
  imports Main
begin

section \<open>The HTML scraper service (app.py)\<close>

text \<open>
  The service is one FastAPI handler, \<open>scrape_url\<close>, guarded by the dependency
  \<open>verify_token\<close>. Everything the handler does is a call into the browser automation
  library, so the model makes those calls explicit: every function returns its result
  together with the list of calls it made and log lines it wrote, in order. What the calls
  answer is not decided by this program; it is a parameter, the record \<open>playwright\<close>.
\<close>

subsection \<open>Exceptions\<close>

text \<open>
  The handlers of the source distinguish \<open>asyncio.TimeoutError\<close>, \<open>HTTPException\<close> and
  every other subclass of \<open>Exception\<close>. \<open>TimeoutError\<close> is \<open>asyncio.TimeoutError\<close>.
  \<open>PlaywrightTimeoutError\<close> is the class the browser library raises when one of its waits
  runs out of time, a subclass of the library's \<open>Error\<close> and not of \<open>asyncio.TimeoutError\<close>.
  An \<open>HTTPException\<close> carries its status code, detail and headers (\<open>headers=None\<close> is the
  empty list); the other kinds carry the text that \<open>str(e)\<close> gives.
  \<open>RequestValidationError\<close> is what the framework raises for a body it cannot accept; it
  carries the name of the first field in error (\<open>body\<close> for the body as a whole).
  \<open>OtherException\<close> is any other subclass of \<open>Exception\<close>. Exceptions outside \<open>Exception\<close>
  (cancellation, interrupts) are not modelled.
\<close>

datatype exn =
    TimeoutError string
  | PlaywrightTimeoutError string
  | HTTPException int string "(string \<times> string) list"
  | RequestValidationError string
  | OtherException string

subsection \<open>Configuration\<close>

text \<open>\<open>VALID_TOKEN = os.getenv("SCRAPER_AUTH_TOKEN", "your-secret-token-here")\<close>: the
  argument is what the process environment holds for the variable.\<close>

definition VALID_TOKEN :: "string option \<Rightarrow> string" where
  "VALID_TOKEN getenv = (case getenv of None \<Rightarrow> ''your-secret-token-here'' | Some v \<Rightarrow> v)"

definition USER_AGENT :: string where
  "USER_AGENT = ''Mozilla/5.0 (Windows NT 10.0; Win64; x64) AppleWebKit/537.36 (KHTML, like Gecko) Chrome/91.0.4472.124 Safari/537.36''"

definition launch_args :: "string list" where
  "launch_args = [''--no-sandbox'', ''--disable-setuid-sandbox'', ''--disable-dev-shm-usage'',
     ''--disable-accelerated-2d-canvas'', ''--no-first-run'', ''--no-zygote'', ''--disable-gpu'']"

subsection \<open>Request and response schemas\<close>

text \<open>\<open>class ScrapeRequest(BaseModel)\<close>. The last three fields are \<open>Optional\<close>: they may
  hold \<open>None\<close>. \<open>url\<close> is the validated URL as \<open>str()\<close> renders it.\<close>

record ScrapeRequest =
  url :: string
  wait_for_selector :: "string option"
  wait_time :: "int option"
  timeout :: "int option"

text \<open>\<open>class ScrapeResponse(BaseModel)\<close>.\<close>

record ScrapeResponse =
  html :: string
  url :: string
  status_code :: int
  success :: bool
  error :: "string option"

text \<open>
  The JSON body. A field of the body is left out, is \<open>null\<close>, has a JSON value of the
  field's own type (\<open>Given\<close>: a string for \<open>url\<close> and \<open>wait_for_selector\<close>, an integer for
  \<open>wait_time\<close> and \<open>timeout\<close>), or has a JSON value of another type (\<open>Other\<close>).
\<close>

datatype json = JBool bool | JInt int | JNumber string | JString string | JStructure

datatype 'a field = Omitted | Null | Given 'a | Other json

record body =
  json_url :: "string field"
  json_wait_for_selector :: "string field"
  json_wait_time :: "int field"
  json_timeout :: "int field"

text \<open>
  What pydantic decides, as a parameter: \<open>HttpUrl\<close> checks a string as URL and gives the
  validated URL, rendered as \<open>str()\<close> renders it, or nothing when the string is rejected;
  \<open>lax_int\<close> and \<open>lax_str\<close> are the conversions of a JSON value of another type to an
  integer and to a string, or nothing when there is none.
\<close>

record pydantic =
  HttpUrl :: "string \<Rightarrow> string option"
  lax_int :: "json \<Rightarrow> int option"
  lax_str :: "json \<Rightarrow> string option"

text \<open>
  A field declared \<open>Optional[T] = d\<close>: the default when it is left out, \<open>None\<close> for \<open>null\<close>,
  a value of the type as it is, a value of another type converted or refused. The outer
  \<open>None\<close> is the refusal.
\<close>

fun optional :: "(json \<Rightarrow> 'a option) \<Rightarrow> 'a option \<Rightarrow> 'a field \<Rightarrow> 'a option option" where
  "optional lax d Omitted = Some d"
| "optional lax d Null = Some None"
| "optional lax d (Given v) = Some (Some v)"
| "optional lax d (Other j) = (case lax j of None \<Rightarrow> None | Some v \<Rightarrow> Some (Some v))"

text \<open>
  The validation of a body against \<open>ScrapeRequest\<close>. \<open>url\<close> is required and must be a string
  that \<open>HttpUrl\<close> accepts; the field \<open>url\<close> of the model then holds the validated URL, here
  the string \<open>str(request.url)\<close>, which is all the handler uses of it. The three other
  fields are optional, with the defaults \<open>None\<close>, \<open>3\<close> and \<open>30\<close>; the schema declares no bound
  on the two integers.
\<close>

definition validate :: "pydantic \<Rightarrow> body \<Rightarrow> exn + ScrapeRequest" where
  "validate lib b =
     (case (case json_url b of Given u \<Rightarrow> HttpUrl lib u | _ \<Rightarrow> None) of
        None \<Rightarrow> Inl (RequestValidationError ''url'')
      | Some u \<Rightarrow>
          (case optional (lax_str lib) None (json_wait_for_selector b) of
             None \<Rightarrow> Inl (RequestValidationError ''wait_for_selector'')
           | Some sel \<Rightarrow>
               (case optional (lax_int lib) (Some 3) (json_wait_time b) of
                  None \<Rightarrow> Inl (RequestValidationError ''wait_time'')
                | Some w \<Rightarrow>
                    (case optional (lax_int lib) (Some 30) (json_timeout b) of
                       None \<Rightarrow> Inl (RequestValidationError ''timeout'')
                     | Some t \<Rightarrow>
                         Inr \<lparr>ScrapeRequest.url = u, wait_for_selector = sel,
                              wait_time = w, timeout = t\<rparr>))))"

subsection \<open>Rendering values in f-strings\<close>

definition digit_char :: "nat \<Rightarrow> char" where
  "digit_char d = ''0123456789'' ! d"

function str_nat :: "nat \<Rightarrow> string" where
  "str_nat n = (if n < 10 then [digit_char n] else str_nat (n div 10) @ [digit_char (n mod 10)])"
  by pat_completeness auto
termination
  by (relation "measure (\<lambda>n. n)") auto

declare str_nat.simps [simp del]

definition str_int :: "int \<Rightarrow> string" where
  "str_int i = (if i < 0 then CHR ''-'' # str_nat (nat (- i)) else str_nat (nat i))"

text \<open>\<open>{request.timeout}\<close> inside an f-string: an integer, or the text \<open>None\<close>.\<close>

definition str_optional_int :: "int option \<Rightarrow> string" where
  "str_optional_int v = (case v of None \<Rightarrow> ''None'' | Some i \<Rightarrow> str_int i)"

subsection \<open>The browser automation library, as a parameter\<close>

text \<open>
  One field for each call the handler makes, giving what that call answers: \<open>Inl\<close> an
  exception it raises, \<open>Inr\<close> its value. \<open>page_goto\<close> answers with the status of the
  navigation response, or with \<open>None\<close> when there is no response object. Each call is made
  at most once in a request, so an answer need not depend on earlier calls.
  \<open>str_HTTPException\<close> is the library's \<open>str()\<close> of an \<open>HTTPException\<close> with the given
  status code and detail.
\<close>

record playwright =
  playwright_start :: "exn + unit"
  chromium_launch :: "bool \<Rightarrow> string list \<Rightarrow> exn + unit"
  browser_new_page :: "string \<Rightarrow> exn + unit"
  page_set_viewport_size :: "int \<Rightarrow> int \<Rightarrow> exn + unit"
  page_goto :: "string \<Rightarrow> int \<Rightarrow> string \<Rightarrow> exn + int option"
  page_wait_for_selector :: "string \<Rightarrow> int \<Rightarrow> exn + unit"
  page_content :: "exn + string"
  browser_close :: "exn + unit"
  playwright_stop :: "exn + unit"
  str_HTTPException :: "int \<Rightarrow> string \<Rightarrow> string"

definition str_exn :: "playwright \<Rightarrow> exn \<Rightarrow> string" where
  "str_exn pw e =
     (case e of
        TimeoutError m \<Rightarrow> m
      | PlaywrightTimeoutError m \<Rightarrow> m
      | HTTPException c d h \<Rightarrow> str_HTTPException pw c d
      | RequestValidationError m \<Rightarrow> m
      | OtherException m \<Rightarrow> m)"

text \<open>What a request does, in order: the calls into the library with their arguments
  (timeouts in milliseconds, as the library takes them), \<open>asyncio.sleep\<close> with its seconds,
  and the lines written to the log.\<close>

datatype event =
    Start
  | Launch bool "string list"
  | NewPage string
  | SetViewportSize int int
  | Goto string int string
  | WaitForSelector string int
  | Sleep int
  | Content
  | Close
  | Stop
  | LogWarning string
  | LogError string

subsection \<open>The bearer scheme and verify_token\<close>

text \<open>
  \<open>security = HTTPBearer()\<close> is library code. It reads the \<open>Authorization\<close> header (absent,
  or its text), splits it at the first space into scheme and credentials, and raises its
  error when the header, the scheme or the credentials are empty or the scheme is not
  \<open>bearer\<close> in any letter case; otherwise it gives the credentials. The error is the one of
  the current release of the library, status 401 with the challenge header; releases
  before 0.122 raised status 403 without it.
\<close>

definition lower_char :: "char \<Rightarrow> char" where
  "lower_char c =
     (case map_of (zip ''ABCDEFGHIJKLMNOPQRSTUVWXYZ'' ''abcdefghijklmnopqrstuvwxyz'') c of
        None \<Rightarrow> c
      | Some l \<Rightarrow> l)"

definition get_authorization_scheme_param :: "string option \<Rightarrow> string \<times> string" where
  "get_authorization_scheme_param authorization =
     (case authorization of
        None \<Rightarrow> ([], [])
      | Some h \<Rightarrow>
          if h = [] then ([], [])
          else (takeWhile (\<lambda>c. c \<noteq> CHR '' '') h, drop 1 (dropWhile (\<lambda>c. c \<noteq> CHR '' '') h)))"

definition not_authenticated :: exn where
  "not_authenticated = HTTPException 401 ''Not authenticated'' [(''WWW-Authenticate'', ''Bearer'')]"

definition HTTPBearer :: "string option \<Rightarrow> exn + string" where
  "HTTPBearer authorization =
     (case get_authorization_scheme_param authorization of
        (scheme, credentials) \<Rightarrow>
          if authorization = None \<or> authorization = Some [] \<or> scheme = [] \<or> credentials = []
          then Inl not_authenticated
          else if map lower_char scheme \<noteq> ''bearer'' then Inl not_authenticated
          else Inr credentials)"

text \<open>\<open>verify_token\<close>, lines 35 to 43, on the credentials the scheme gave.\<close>


definition verify_token :: "string \<Rightarrow> string \<Rightarrow> exn + string" where
  "verify_token valid_token credentials =
     (if credentials \<noteq> valid_token
      then Inl (HTTPException 401 ''Invalid authentication token'' [(''WWW-Authenticate'', ''Bearer'')])
      else Inr credentials)"

subsection \<open>scrape_url\<close>

text \<open>Lines 90 to 97: the optional wait for a selector. \<open>if request.wait_for_selector\<close> is
  false for \<open>None\<close> and for the empty string. Any exception of the wait is caught here and
  logged as a warning. \<open>t\<close> is \<open>request.timeout\<close>, known to be an integer at this point.\<close>

definition wait_selector :: "playwright \<Rightarrow> ScrapeRequest \<Rightarrow> int \<Rightarrow> event list" where
  "wait_selector pw request t =
     (case wait_for_selector request of
        None \<Rightarrow> []
      | Some sel \<Rightarrow>
          if sel = [] then []
          else (case page_wait_for_selector pw sel (t * 1000) of
                  Inl e \<Rightarrow> [WaitForSelector sel (t * 1000),
                            LogWarning (''Selector '' @ sel @ '' not found: '' @ str_exn pw e)]
                | Inr _ \<Rightarrow> [WaitForSelector sel (t * 1000)]))"

text \<open>Lines 100 and 101: \<open>if request.wait_time and request.wait_time > 0\<close>.\<close>

definition extra_wait :: "ScrapeRequest \<Rightarrow> event list" where
  "extra_wait request =
     (case wait_time request of
        None \<Rightarrow> []
      | Some w \<Rightarrow> if w \<noteq> 0 \<and> w > 0 then [Sleep w] else [])"

text \<open>Lines 103 to 111, after a navigation that answered with status \<open>st\<close>.\<close>

definition extract_content :: "playwright \<Rightarrow> ScrapeRequest \<Rightarrow> int \<Rightarrow> (exn + ScrapeResponse) \<times> event list" where
  "extract_content pw request st =
     (case page_content pw of
        Inl e \<Rightarrow> (Inl e, [Content])
      | Inr html_content \<Rightarrow>
          (Inr \<lparr>html = html_content, url = ScrapeRequest.url request, status_code = st,
                success = True, error = None\<rparr>, [Content]))"

text \<open>Lines 77 to 111. \<open>request.timeout * 1000\<close> is evaluated before \<open>page.goto\<close> is called,
  and raises \<open>TypeError\<close> when the timeout is \<open>None\<close>.\<close>

definition TypeError :: exn where
  "TypeError = OtherException (''unsupported operand type(s) for *: '' @ [CHR 0x27] @ ''NoneType''
     @ [CHR 0x27] @ '' and '' @ [CHR 0x27] @ ''int'' @ [CHR 0x27])"

definition navigate :: "playwright \<Rightarrow> ScrapeRequest \<Rightarrow> (exn + ScrapeResponse) \<times> event list" where
  "navigate pw request =
     (case timeout request of
        None \<Rightarrow> (Inl TypeError, [])
      | Some t \<Rightarrow>
          (case page_goto pw (ScrapeRequest.url request) (t * 1000) ''networkidle'' of
             Inl e \<Rightarrow> (Inl e, [Goto (ScrapeRequest.url request) (t * 1000) ''networkidle''])
           | Inr None \<Rightarrow>
               (Inl (HTTPException 400 ''Failed to load the page'' []),
                [Goto (ScrapeRequest.url request) (t * 1000) ''networkidle''])
           | Inr (Some st) \<Rightarrow>
               (case extract_content pw request st of
                  (r, tr) \<Rightarrow>
                    (r, [Goto (ScrapeRequest.url request) (t * 1000) ''networkidle'']
                        @ wait_selector pw request t @ extra_wait request @ tr))))"

text \<open>Lines 70 to 111: the body of the inner \<open>try\<close>.\<close>

definition page_steps :: "playwright \<Rightarrow> ScrapeRequest \<Rightarrow> (exn + ScrapeResponse) \<times> event list" where
  "page_steps pw request =
     (case browser_new_page pw USER_AGENT of
        Inl e \<Rightarrow> (Inl e, [NewPage USER_AGENT])
      | Inr _ \<Rightarrow>
          (case page_set_viewport_size pw 1920 1080 of
             Inl e \<Rightarrow> (Inl e, [NewPage USER_AGENT, SetViewportSize 1920 1080])
           | Inr _ \<Rightarrow>
               (case navigate pw request of
                  (r, tr) \<Rightarrow> (r, [NewPage USER_AGENT, SetViewportSize 1920 1080] @ tr))))"

text \<open>Lines 69 to 114: \<open>try ... finally: await browser.close()\<close>. The \<open>finally\<close> clause runs
  however the body ends; an exception of \<open>close\<close> replaces the body's outcome.\<close>

definition with_browser :: "playwright \<Rightarrow> ScrapeRequest \<Rightarrow> (exn + ScrapeResponse) \<times> event list" where
  "with_browser pw request =
     (case page_steps pw request of
        (r, tr) \<Rightarrow>
          (case browser_close pw of
             Inl e \<Rightarrow> (Inl e, tr @ [Close])
           | Inr _ \<Rightarrow> (r, tr @ [Close])))"

text \<open>Lines 56 to 114: the body of the \<open>async with\<close>. The launch is outside the inner
  \<open>try\<close>.\<close>

definition launch_and_scrape :: "playwright \<Rightarrow> ScrapeRequest \<Rightarrow> (exn + ScrapeResponse) \<times> event list" where
  "launch_and_scrape pw request =
     (case chromium_launch pw True launch_args of
        Inl e \<Rightarrow> (Inl e, [Launch True launch_args])
      | Inr _ \<Rightarrow>
          (case with_browser pw request of
             (r, tr) \<Rightarrow> (r, Launch True launch_args # tr)))"

text \<open>Lines 54 to 114: \<open>async with async_playwright() as p\<close>. When entering raises, the
  body does not run. Leaving does not swallow an exception of the body; an exception of
  leaving replaces the body's outcome.\<close>

definition scrape_block :: "playwright \<Rightarrow> ScrapeRequest \<Rightarrow> (exn + ScrapeResponse) \<times> event list" where
  "scrape_block pw request =
     (case playwright_start pw of
        Inl e \<Rightarrow> (Inl e, [Start])
      | Inr _ \<Rightarrow>
          (case launch_and_scrape pw request of
             (r, tr) \<Rightarrow>
               (case playwright_stop pw of
                  Inl e \<Rightarrow> (Inl e, Start # tr @ [Stop])
                | Inr _ \<Rightarrow> (r, Start # tr @ [Stop]))))"

text \<open>Lines 53 to 126: the outer \<open>try\<close> with its two handlers, tried in order.\<close>

definition scrape_url :: "playwright \<Rightarrow> ScrapeRequest \<Rightarrow> (exn + ScrapeResponse) \<times> event list" where
  "scrape_url pw request =
     (case scrape_block pw request of
        (Inr r, tr) \<Rightarrow> (Inr r, tr)
      | (Inl (TimeoutError m), tr) \<Rightarrow>
          (Inl (HTTPException 408
                  (''Request timeout after '' @ str_optional_int (timeout request) @ '' seconds'') []),
           tr)
      | (Inl e, tr) \<Rightarrow>
          (Inl (HTTPException 500 (''Scraping failed: '' @ str_exn pw e) []),
           tr @ [LogError (''Scraping error for '' @ ScrapeRequest.url request @ '': '' @ str_exn pw e)]))"

subsection \<open>The endpoint\<close>

text \<open>
  \<open>POST /scrape\<close> as the framework runs it. The framework first reads the body: bytes that
  do not decode as JSON end the request with a validation error before any dependency
  runs (\<open>Undecodable\<close>). Then come the dependencies of the source, \<open>security\<close> and after it
  \<open>verify_token\<close>; an exception of a dependency ends the request. Only then are the errors
  of the body reported: a body that is no JSON object, such as an empty one (\<open>NoObject\<close>),
  or an object that does not fit the schema. The handler runs last. The scheme \<open>security\<close>
  is a parameter, so that the statements about the handler hold for any scheme.
\<close>

datatype payload = Undecodable | NoObject | Object body

definition request_of :: "pydantic \<Rightarrow> payload \<Rightarrow> exn + ScrapeRequest" where
  "request_of lib p =
     (case p of
        Object b \<Rightarrow> validate lib b
      | _ \<Rightarrow> Inl (RequestValidationError ''body''))"

definition scrape_endpoint ::
  "(string option \<Rightarrow> exn + string) \<Rightarrow> string \<Rightarrow> pydantic \<Rightarrow> playwright \<Rightarrow>
   string option \<Rightarrow> payload \<Rightarrow> (exn + ScrapeResponse) \<times> event list" where
  "scrape_endpoint security valid_token lib pw authorization p =
     (if p = Undecodable then (Inl (RequestValidationError ''body''), [])
      else
        (case security authorization of
           Inl e \<Rightarrow> (Inl e, [])
         | Inr credentials \<Rightarrow>
             (case verify_token valid_token credentials of
                Inl e \<Rightarrow> (Inl e, [])
              | Inr token \<Rightarrow>
                  (case request_of lib p of
                     Inl e \<Rightarrow> (Inl e, [])
                   | Inr request \<Rightarrow> scrape_url pw request))))"

text \<open>The status of the HTTP response: 200 for a returned model, the status code of an
  \<open>HTTPException\<close>, 422 for a validation error, 500 for an exception nothing handles.\<close>

definition http_status :: "exn + ScrapeResponse \<Rightarrow> int" where
  "http_status r =
     (case r of
        Inr _ \<Rightarrow> 200
      | Inl (HTTPException c d h) \<Rightarrow> c
      | Inl (RequestValidationError m) \<Rightarrow> 422
      | Inl _ \<Rightarrow> 500)"

definition http_headers :: "exn + ScrapeResponse \<Rightarrow> (string \<times> string) list" where
  "http_headers r = (case r of Inl (HTTPException c d h) \<Rightarrow> h | _ \<Rightarrow> [])"

subsection \<open>Vocabulary of the properties\<close>

text \<open>The calls before the navigation all answer: the playwright context starts, the
  browser is launched, the page is opened and its viewport is set.\<close>

definition page_opens :: "playwright \<Rightarrow> bool" where
  "page_opens pw =
     (playwright_start pw = Inr () \<and> chromium_launch pw True launch_args = Inr () \<and>
      browser_new_page pw USER_AGENT = Inr () \<and> page_set_viewport_size pw 1920 1080 = Inr ())"

text \<open>Closing the browser and leaving the playwright context raise nothing.\<close>

definition teardown_ok :: "playwright \<Rightarrow> bool" where
  "teardown_ok pw = (browser_close pw = Inr () \<and> playwright_stop pw = Inr ())"

text \<open>The position of each kind of step in the text of the handler. A trace whose step
  numbers increase strictly takes every step at most once, in the order of the source.\<close>

fun step_number :: "event \<Rightarrow> nat" where
  "step_number Start = 0"
| "step_number (Launch h a) = 1"
| "step_number (NewPage ua) = 2"
| "step_number (SetViewportSize w h) = 3"
| "step_number (Goto u ms w) = 4"
| "step_number (WaitForSelector s ms) = 5"
| "step_number (LogWarning m) = 6"
| "step_number (Sleep n) = 7"
| "step_number Content = 8"
| "step_number Close = 9"
| "step_number Stop = 10"
| "step_number (LogError m) = 11"

text \<open>The number of browser instances a request created: its launch calls, when the
  launch answers with a browser.\<close>

definition browsers_created :: "playwright \<Rightarrow> event list \<Rightarrow> nat" where
  "browsers_created pw tr =
     (case chromium_launch pw True launch_args of
        Inl e \<Rightarrow> 0
      | Inr u \<Rightarrow> count_list tr (Launch True launch_args))"

text \<open>The calls that need the browser to be open.\<close>

fun uses_browser :: "event \<Rightarrow> bool" where
  "uses_browser (NewPage ua) = True"
| "uses_browser (SetViewportSize w h) = True"
| "uses_browser (Goto u ms w) = True"
| "uses_browser (WaitForSelector s ms) = True"
| "uses_browser Content = True"
| "uses_browser ev = False"

text \<open>
  A failure of the scrape, told by the calls: a call other than the selector wait raises
  \<open>e\<close>, the calls before it having answered, and no call made after it raises (closing the
  browser and leaving the playwright context are made after a failure too). The \<open>TypeError\<close>
  of a timeout that is \<open>None\<close> counts as a call that raises; a navigation without a
  response is not a raising call.
\<close>

definition page_failure :: "playwright \<Rightarrow> ScrapeRequest \<Rightarrow> exn \<Rightarrow> bool" where
  "page_failure pw request e =
     (browser_new_page pw USER_AGENT = Inl e \<or>
      browser_new_page pw USER_AGENT = Inr () \<and>
        (page_set_viewport_size pw 1920 1080 = Inl e \<or>
         page_set_viewport_size pw 1920 1080 = Inr () \<and>
           (case timeout request of
              None \<Rightarrow> e = TypeError
            | Some t \<Rightarrow>
                (case page_goto pw (ScrapeRequest.url request) (t * 1000) ''networkidle'' of
                   Inl e' \<Rightarrow> e' = e
                 | Inr None \<Rightarrow> False
                 | Inr (Some st) \<Rightarrow> page_content pw = Inl e))))"

definition scrape_failure :: "playwright \<Rightarrow> ScrapeRequest \<Rightarrow> exn \<Rightarrow> bool" where
  "scrape_failure pw request e =
     (playwright_start pw = Inl e \<or>
      playwright_start pw = Inr () \<and>
        (playwright_stop pw = Inl e \<or>
         playwright_stop pw = Inr () \<and>
           (chromium_launch pw True launch_args = Inl e \<or>
            chromium_launch pw True launch_args = Inr () \<and>
              (browser_close pw = Inl e \<or>
               browser_close pw = Inr () \<and> page_failure pw request e))))"

subsection \<open>Concrete libraries and requests\<close>

text \<open>\<open>str()\<close> of an \<open>HTTPException\<close> as Starlette defines it: status code, colon, detail.\<close>

definition starlette_str :: "int \<Rightarrow> string \<Rightarrow> string" where
  "starlette_str c d = str_int c @ '': '' @ d"

text \<open>A library in which every call answers: the page loads with status 200.\<close>

definition pw_ok :: playwright where
  "pw_ok = \<lparr>playwright_start = Inr (), chromium_launch = (\<lambda>h a. Inr ()),
     browser_new_page = (\<lambda>ua. Inr ()), page_set_viewport_size = (\<lambda>w h. Inr ()),
     page_goto = (\<lambda>u ms w. Inr (Some 200)), page_wait_for_selector = (\<lambda>s ms. Inr ()),
     page_content = Inr ''<html></html>'', browser_close = Inr (), playwright_stop = Inr (),
     str_HTTPException = starlette_str\<rparr>"

text \<open>The selector never appears: the wait runs out of time, with the timeout of the
  browser library.\<close>

definition pw_selector_timeout :: playwright where
  "pw_selector_timeout =
     pw_ok\<lparr>page_wait_for_selector :=
       (\<lambda>s ms. Inl (PlaywrightTimeoutError ''Timeout 30000ms exceeded.''))\<rparr>"

text \<open>The selector is one the browser cannot read: the wait fails, and not by a timeout.\<close>

definition pw_selector_error :: playwright where
  "pw_selector_error =
     pw_ok\<lparr>page_wait_for_selector := (\<lambda>s ms. Inl (OtherException ''Unexpected token''))\<rparr>"

text \<open>The navigation runs out of time, with the timeout of the browser library.\<close>

definition pw_navigation_timeout :: playwright where
  "pw_navigation_timeout =
     pw_ok\<lparr>page_goto := (\<lambda>u ms w. Inl (PlaywrightTimeoutError ''Timeout 30000ms exceeded.''))\<rparr>"

text \<open>The navigation completes with no response object.\<close>

definition pw_no_response :: playwright where
  "pw_no_response = pw_ok\<lparr>page_goto := (\<lambda>u ms w. Inr None)\<rparr>"

text \<open>The browser cannot be launched.\<close>

definition pw_launch_fails :: playwright where
  "pw_launch_fails =
     pw_ok\<lparr>chromium_launch := (\<lambda>h a. Inl (OtherException ''Executable does not exist''))\<rparr>"

text \<open>Reading the page fails.\<close>

definition pw_content_fails :: playwright where
  "pw_content_fails = pw_ok\<lparr>page_content := Inl (OtherException ''Target closed'')\<rparr>"

text \<open>
  pydantic 2 on the values of the examples: a URL without path is rendered with the path
  \<open>/\<close>; the string \<open>5\<close>, the number \<open>2.0\<close> and the booleans are read as integers; nothing
  but a string is read as a string.
\<close>

definition pydantic_2 :: pydantic where
  "pydantic_2 =
     \<lparr>HttpUrl = (\<lambda>u. if u = ''https://example.com'' \<or> u = ''https://example.com/''
                      then Some ''https://example.com/'' else None),
      lax_int = (\<lambda>j. case j of
                   JBool v \<Rightarrow> Some (if v then 1 else 0)
                 | JString s \<Rightarrow> if s = ''5'' then Some 5 else None
                 | JNumber s \<Rightarrow> if s = ''2.0'' then Some 2 else None
                 | _ \<Rightarrow> None),
      lax_str = (\<lambda>j. None)\<rparr>"

definition request_example :: ScrapeRequest where
  "request_example = \<lparr>ScrapeRequest.url = ''https://example.com/'',
     wait_for_selector = Some ''#late'', wait_time = Some 3, timeout = Some 30\<rparr>"

definition request_nonpositive :: ScrapeRequest where
  "request_nonpositive = \<lparr>ScrapeRequest.url = ''https://example.com/'',
     wait_for_selector = None, wait_time = Some 0, timeout = Some (- 5)\<rparr>"

definition request_ten :: ScrapeRequest where
  "request_ten = \<lparr>ScrapeRequest.url = ''https://example.com/'',
     wait_for_selector = None, wait_time = Some 3, timeout = Some 10\<rparr>"

text \<open>The bodies these requests come from. The first two leave the path of the URL out.\<close>

definition body_example :: body where
  "body_example = \<lparr>json_url = Given ''https://example.com'',
     json_wait_for_selector = Given ''#late'', json_wait_time = Omitted, json_timeout = Omitted\<rparr>"

definition body_nonpositive :: body where
  "body_nonpositive = \<lparr>json_url = Given ''https://example.com'',
     json_wait_for_selector = Omitted, json_wait_time = Given 0, json_timeout = Given (- 5)\<rparr>"

definition body_ten :: body where
  "body_ten = \<lparr>json_url = Given ''https://example.com'',
     json_wait_for_selector = Omitted, json_wait_time = Omitted, json_timeout = Given 10\<rparr>"

section \<open>Properties\<close>

subsection \<open>The order of the steps\<close>

lemmas scrape_defs = scrape_url_def scrape_block_def launch_and_scrape_def with_browser_def
  page_steps_def navigate_def extract_content_def

lemma navigate_steps:
  "sorted_wrt (<) (map step_number (snd (navigate pw request))) \<and>
   (\<forall>ev \<in> set (snd (navigate pw request)). 4 \<le> step_number ev \<and> step_number ev \<le> 8)"
  by (auto simp: navigate_def extract_content_def wait_selector_def extra_wait_def
           split: option.splits sum.splits)

lemma page_steps_steps:
  "sorted_wrt (<) (map step_number (snd (page_steps pw request))) \<and>
   (\<forall>ev \<in> set (snd (page_steps pw request)). 2 \<le> step_number ev \<and> step_number ev \<le> 8)"
  using navigate_steps [of pw request]
  by (cases "navigate pw request") (fastforce simp: page_steps_def split: sum.splits)


lemma with_browser_trace: "snd (with_browser pw request) = snd (page_steps pw request) @ [Close]"
  by (cases "page_steps pw request") (simp add: with_browser_def split: sum.splits)

lemma launch_and_scrape_trace:
  "snd (launch_and_scrape pw request) =
     (case chromium_launch pw True launch_args of
        Inl e \<Rightarrow> [Launch True launch_args]
      | Inr u \<Rightarrow> Launch True launch_args # snd (page_steps pw request) @ [Close])"
  using with_browser_trace [of pw request]
  by (cases "with_browser pw request") (simp add: launch_and_scrape_def split: sum.splits)

lemma scrape_block_trace:
  "snd (scrape_block pw request) =
     (case playwright_start pw of
        Inl e \<Rightarrow> [Start]
      | Inr u \<Rightarrow> Start # snd (launch_and_scrape pw request) @ [Stop])"
  by (cases "launch_and_scrape pw request") (simp add: scrape_block_def split: sum.splits)

lemma scrape_url_trace:
  "snd (scrape_url pw request) =
     snd (scrape_block pw request) @
     (case fst (scrape_block pw request) of
        Inr r \<Rightarrow> []
      | Inl (TimeoutError m) \<Rightarrow> []
      | Inl e \<Rightarrow> [LogError (''Scraping error for '' @ ScrapeRequest.url request @ '': '' @ str_exn pw e)])"
  by (cases "scrape_block pw request") (simp add: scrape_url_def split: sum.splits exn.splits)

lemma scrape_block_steps:
  "sorted_wrt (<) (map step_number (snd (scrape_block pw request))) \<and>
   (\<forall>ev \<in> set (snd (scrape_block pw request)). step_number ev \<le> 10)"
  using page_steps_steps [of pw request]
  by (fastforce simp: scrape_block_trace launch_and_scrape_trace sorted_wrt_append split: sum.splits)

lemma scrape_url_steps: "sorted_wrt (<) (map step_number (snd (scrape_url pw request)))"
  using scrape_block_steps [of pw request]
  by (fastforce simp: scrape_url_trace sorted_wrt_append split: sum.splits exn.splits)


subsection \<open>Outcomes\<close>

lemma navigate_outcome:
  "fst (navigate pw request) =
     (case timeout request of
        None \<Rightarrow> Inl TypeError
      | Some t \<Rightarrow>
          (case page_goto pw (ScrapeRequest.url request) (t * 1000) ''networkidle'' of
             Inl e \<Rightarrow> Inl e
           | Inr None \<Rightarrow> Inl (HTTPException 400 ''Failed to load the page'' [])
           | Inr (Some st) \<Rightarrow>
               (case page_content pw of
                  Inl e \<Rightarrow> Inl e
                | Inr h \<Rightarrow> Inr \<lparr>html = h, url = ScrapeRequest.url request, status_code = st,
                                success = True, error = None\<rparr>)))"
  by (simp add: navigate_def extract_content_def split: option.splits sum.splits)

lemma page_steps_outcome:
  "fst (page_steps pw request) =
     (case browser_new_page pw USER_AGENT of
        Inl e \<Rightarrow> Inl e
      | Inr u \<Rightarrow>
          (case page_set_viewport_size pw 1920 1080 of
             Inl e \<Rightarrow> Inl e
           | Inr u \<Rightarrow> fst (navigate pw request)))"
  by (cases "navigate pw request") (simp add: page_steps_def split: sum.splits)

lemma with_browser_outcome:
  "fst (with_browser pw request) =
     (case browser_close pw of Inl e \<Rightarrow> Inl e | Inr u \<Rightarrow> fst (page_steps pw request))"
  by (cases "page_steps pw request") (simp add: with_browser_def split: sum.splits)

lemma launch_and_scrape_outcome:
  "fst (launch_and_scrape pw request) =
     (case chromium_launch pw True launch_args of
        Inl e \<Rightarrow> Inl e
      | Inr u \<Rightarrow> fst (with_browser pw request))"
  by (cases "with_browser pw request") (simp add: launch_and_scrape_def split: sum.splits)

lemma scrape_block_outcome:
  "fst (scrape_block pw request) =
     (case playwright_start pw of
        Inl e \<Rightarrow> Inl e
      | Inr u \<Rightarrow>
          (case playwright_stop pw of
             Inl e \<Rightarrow> Inl e
           | Inr u \<Rightarrow> fst (launch_and_scrape pw request)))"
  by (cases "launch_and_scrape pw request") (simp add: scrape_block_def split: sum.splits)

lemma scrape_url_outcome:
  "fst (scrape_url pw request) =
     (case fst (scrape_block pw request) of
        Inr r \<Rightarrow> Inr r
      | Inl (TimeoutError m) \<Rightarrow>
          Inl (HTTPException 408
                 (''Request timeout after '' @ str_optional_int (timeout request) @ '' seconds'') [])
      | Inl e \<Rightarrow> Inl (HTTPException 500 (''Scraping failed: '' @ str_exn pw e) []))"
  by (cases "scrape_block pw request") (simp add: scrape_url_def split: sum.splits exn.splits)

lemmas outcome = scrape_block_outcome launch_and_scrape_outcome with_browser_outcome
  page_steps_outcome navigate_outcome

lemma scrape_block_returns:
  assumes "fst (scrape_block pw request) = Inr r"
  shows "\<exists>t st h. timeout request = Some t \<and>
           page_goto pw (ScrapeRequest.url request) (t * 1000) ''networkidle'' = Inr (Some st) \<and>
           page_content pw = Inr h \<and>
           r = \<lparr>html = h, url = ScrapeRequest.url request, status_code = st,
                success = True, error = None\<rparr>"
  using assms by (auto simp: outcome split: sum.splits option.splits)

lemma scrape_url_returns:
  assumes "fst (scrape_url pw request) = Inr r"
  shows "\<exists>t st h. timeout request = Some t \<and>
           page_goto pw (ScrapeRequest.url request) (t * 1000) ''networkidle'' = Inr (Some st) \<and>
           page_content pw = Inr h \<and>
           r = \<lparr>html = h, url = ScrapeRequest.url request, status_code = st,
                success = True, error = None\<rparr>"
proof -
  from assms have "fst (scrape_block pw request) = Inr r"
    by (simp add: scrape_url_outcome split: sum.splits exn.splits)
  then show ?thesis by (rule scrape_block_returns)
qed

lemma scrape_url_success:
  assumes "page_opens pw" "teardown_ok pw" "timeout request = Some t"
    and "page_goto pw (ScrapeRequest.url request) (t * 1000) ''networkidle'' = Inr (Some st)"
    and "page_content pw = Inr h"
  shows "scrape_url pw request =
           (Inr \<lparr>html = h, url = ScrapeRequest.url request, status_code = st,
                 success = True, error = None\<rparr>,
            [Start, Launch True launch_args, NewPage USER_AGENT, SetViewportSize 1920 1080,
             Goto (ScrapeRequest.url request) (t * 1000) ''networkidle'']
            @ wait_selector pw request t @ extra_wait request @ [Content, Close, Stop])"
  using assms by (simp add: scrape_defs page_opens_def teardown_ok_def)

lemma scrape_endpoint_authenticated:
  assumes "security authorization = Inr valid_token"
    and "validate lib b = Inr request"
  shows "scrape_endpoint security valid_token lib pw authorization (Object b) = scrape_url pw request"
  using assms by (simp add: scrape_endpoint_def verify_token_def request_of_def)

lemma scrape_endpoint_returns:
  assumes "fst (scrape_endpoint security valid_token lib pw authorization p) = Inr r"
  shows "\<exists>b request. p = Object b \<and> security authorization = Inr valid_token \<and>
           validate lib b = Inr request \<and> fst (scrape_url pw request) = Inr r"
  using assms
  by (cases p)
     (auto simp: scrape_endpoint_def verify_token_def request_of_def split: sum.splits if_splits)

lemma str_exn_selector_update:
  "str_exn (pw\<lparr>page_wait_for_selector := f\<rparr>) e = str_exn pw e"
  by (cases e) (simp_all add: str_exn_def)

lemma scrape_block_selector_update:
  "fst (scrape_block (pw\<lparr>page_wait_for_selector := f\<rparr>) request) = fst (scrape_block pw request)"
  by (simp add: outcome split: sum.splits option.splits)

lemma selector_wait_not_propagated:
  "fst (scrape_url (pw\<lparr>page_wait_for_selector := f\<rparr>) request) = fst (scrape_url pw request)"
  by (simp add: scrape_url_outcome scrape_block_selector_update str_exn_selector_update
           split: sum.splits exn.splits)

lemma error_log_selector_update:
  "(case fst (scrape_block (pw\<lparr>page_wait_for_selector := f\<rparr>) request) of
      Inr r \<Rightarrow> []
    | Inl (TimeoutError m) \<Rightarrow> []
    | Inl e \<Rightarrow> [LogError (''Scraping error for '' @ ScrapeRequest.url request @ '': ''
                          @ str_exn (pw\<lparr>page_wait_for_selector := f\<rparr>) e)]) =
   (case fst (scrape_block pw request) of
      Inr r \<Rightarrow> []
    | Inl (TimeoutError m) \<Rightarrow> []
    | Inl e \<Rightarrow> [LogError (''Scraping error for '' @ ScrapeRequest.url request @ '': ''
                          @ str_exn pw e)])"
  by (simp add: scrape_block_selector_update str_exn_selector_update split: sum.splits exn.splits)

lemma scrape_url_trace_loaded:
  assumes "page_opens pw" and "timeout request = Some t"
    and "page_goto pw (ScrapeRequest.url request) (t * 1000) ''networkidle'' = Inr (Some st)"
  shows "snd (scrape_url pw request) =
           [Start, Launch True launch_args, NewPage USER_AGENT, SetViewportSize 1920 1080,
            Goto (ScrapeRequest.url request) (t * 1000) ''networkidle'']
           @ wait_selector pw request t
           @ (extra_wait request @ [Content, Close, Stop]
              @ (case fst (scrape_block pw request) of
                   Inr r \<Rightarrow> []
                 | Inl (TimeoutError m) \<Rightarrow> []
                 | Inl e \<Rightarrow> [LogError (''Scraping error for '' @ ScrapeRequest.url request @ '': ''
                                       @ str_exn pw e)]))"
proof -
  have "snd (navigate pw request) =
      [Goto (ScrapeRequest.url request) (t * 1000) ''networkidle'']
      @ wait_selector pw request t @ extra_wait request @ [Content]"
    using assms(2,3) by (simp add: navigate_def extract_content_def split: sum.splits)
  then have "snd (page_steps pw request) =
      [NewPage USER_AGENT, SetViewportSize 1920 1080,
       Goto (ScrapeRequest.url request) (t * 1000) ''networkidle'']
      @ wait_selector pw request t @ extra_wait request @ [Content]"
    using assms(1) by (cases "navigate pw request") (simp add: page_steps_def page_opens_def)
  then show ?thesis
    using assms(1)
    by (simp add: scrape_url_trace scrape_block_trace launch_and_scrape_trace page_opens_def)
qed

subsection \<open>Timeouts\<close>

text \<open>
  C1, as the specification states it: a request whose navigation or selector wait exceeds
  its time budget is answered with HTTP 408. The handler does not do that for the selector
  wait: with a selector that never appears and a wait that runs out of time, the request
  is answered with 200.
\<close>

theorem C1_selector_timeout_is_200:
  "page_wait_for_selector pw_selector_timeout ''#late'' 30000
     = Inl (PlaywrightTimeoutError ''Timeout 30000ms exceeded.'') \<and>
   WaitForSelector ''#late'' 30000 \<in> set (snd (scrape_url pw_selector_timeout request_example)) \<and>
   http_status (fst (scrape_url pw_selector_timeout request_example)) = 200"
  by (simp add: scrape_defs wait_selector_def extra_wait_def pw_selector_timeout_def pw_ok_def
        request_example_def http_status_def)

text \<open>
  C1, amended to what the handler does by design: a selector wait that exceeds its budget
  is not answered with 408. The timeout the wait raises, of the browser library or of
  \<open>asyncio\<close>, is caught at the wait and logged as a warning with its message; the later
  steps are taken as they are when the selector appears; and the request is answered as
  it is when the selector appears, with 200 and the page when the page can be read and
  the teardown raises nothing. What a navigation that exceeds its budget is answered with
  is not part of this statement.
\<close>

theorem C1_selector_timeout_is_caught:
  assumes "page_opens pw" and "timeout request = Some t"
    and "wait_for_selector request = Some sel" and "sel \<noteq> []"
    and "page_goto pw (ScrapeRequest.url request) (t * 1000) ''networkidle'' = Inr (Some st)"
    and "page_wait_for_selector pw sel (t * 1000) = Inl e"
    and "e = PlaywrightTimeoutError m \<or> e = TimeoutError m"
  shows "fst (scrape_url pw request) =
           fst (scrape_url (pw\<lparr>page_wait_for_selector := (\<lambda>s ms. Inr ())\<rparr>) request) \<and>
         (\<exists>rest.
            snd (scrape_url pw request) =
              [Start, Launch True launch_args, NewPage USER_AGENT, SetViewportSize 1920 1080,
               Goto (ScrapeRequest.url request) (t * 1000) ''networkidle'',
               WaitForSelector sel (t * 1000),
               LogWarning (''Selector '' @ sel @ '' not found: '' @ m)] @ rest \<and>
            snd (scrape_url (pw\<lparr>page_wait_for_selector := (\<lambda>s ms. Inr ())\<rparr>) request) =
              [Start, Launch True launch_args, NewPage USER_AGENT, SetViewportSize 1920 1080,
               Goto (ScrapeRequest.url request) (t * 1000) ''networkidle'',
               WaitForSelector sel (t * 1000)] @ rest) \<and>
         (teardown_ok pw \<and> page_content pw = Inr h \<longrightarrow>
            fst (scrape_url pw request) =
              Inr \<lparr>html = h, url = ScrapeRequest.url request, status_code = st,
                   success = True, error = None\<rparr> \<and>
            http_status (fst (scrape_url pw request)) = 200)"
proof -
  let ?found = "pw\<lparr>page_wait_for_selector := (\<lambda>s ms. Inr ())\<rparr>"
  let ?rest = "extra_wait request @ [Content, Close, Stop]
       @ (case fst (scrape_block pw request) of
            Inr r \<Rightarrow> []
          | Inl (TimeoutError m) \<Rightarrow> []
          | Inl e \<Rightarrow> [LogError (''Scraping error for '' @ ScrapeRequest.url request @ '': ''
                                @ str_exn pw e)])"
  have same: "fst (scrape_url pw request) = fst (scrape_url ?found request)"
    by (simp add: selector_wait_not_propagated)
  have msg: "str_exn pw e = m"
    using assms(7) by (auto simp: str_exn_def)
  have missed: "wait_selector pw request t =
      [WaitForSelector sel (t * 1000), LogWarning (''Selector '' @ sel @ '' not found: '' @ m)]"
    using assms(3,4,6) msg by (simp add: wait_selector_def)
  have found: "wait_selector ?found request t = [WaitForSelector sel (t * 1000)]"
    using assms(3,4) by (simp add: wait_selector_def)
  have opens: "page_opens ?found"
    using assms(1) by (simp add: page_opens_def)
  have nav: "page_goto ?found (ScrapeRequest.url request) (t * 1000) ''networkidle'' = Inr (Some st)"
    using assms(5) by simp
  have tr: "snd (scrape_url pw request) =
      [Start, Launch True launch_args, NewPage USER_AGENT, SetViewportSize 1920 1080,
       Goto (ScrapeRequest.url request) (t * 1000) ''networkidle'',
       WaitForSelector sel (t * 1000),
       LogWarning (''Selector '' @ sel @ '' not found: '' @ m)] @ ?rest"
    using scrape_url_trace_loaded [OF assms(1,2,5)] missed by simp
  have tr': "snd (scrape_url ?found request) =
      [Start, Launch True launch_args, NewPage USER_AGENT, SetViewportSize 1920 1080,
       Goto (ScrapeRequest.url request) (t * 1000) ''networkidle'',
       WaitForSelector sel (t * 1000)] @ ?rest"
    using scrape_url_trace_loaded [OF opens assms(2) nav] found
    by (simp add: error_log_selector_update)
  have ok: "fst (scrape_url pw request) =
        Inr \<lparr>html = h, url = ScrapeRequest.url request, status_code = st,
             success = True, error = None\<rparr> \<and>
      http_status (fst (scrape_url pw request)) = 200"
    if "teardown_ok pw \<and> page_content pw = Inr h"
    using that scrape_url_success [of pw request t st h] assms(1,2,5)
    by (simp add: http_status_def)
  from tr tr' have "\<exists>rest.
      snd (scrape_url pw request) =
        [Start, Launch True launch_args, NewPage USER_AGENT, SetViewportSize 1920 1080,
         Goto (ScrapeRequest.url request) (t * 1000) ''networkidle'',
         WaitForSelector sel (t * 1000),
         LogWarning (''Selector '' @ sel @ '' not found: '' @ m)] @ rest \<and>
      snd (scrape_url ?found request) =
        [Start, Launch True launch_args, NewPage USER_AGENT, SetViewportSize 1920 1080,
         Goto (ScrapeRequest.url request) (t * 1000) ''networkidle'',
         WaitForSelector sel (t * 1000)] @ rest"
    by (rule_tac x = ?rest in exI) (rule conjI)
  with same ok show ?thesis by blast
qed

theorem C1_selector_timeout_is_caught_witness:
  "page_wait_for_selector pw_selector_timeout ''#late'' (30 * 1000)
     = Inl (PlaywrightTimeoutError ''Timeout 30000ms exceeded.'') \<and>
   fst (scrape_url pw_selector_timeout request_example) =
     Inr \<lparr>html = ''<html></html>'', url = ''https://example.com/'', status_code = 200,
          success = True, error = None\<rparr> \<and>
   http_status (fst (scrape_url pw_selector_timeout request_example)) = 200 \<and>
   fst (scrape_url pw_selector_timeout request_example) =
     fst (scrape_url (pw_selector_timeout\<lparr>page_wait_for_selector := (\<lambda>s ms. Inr ())\<rparr>)
            request_example)"
proof -
  have opens: "page_opens pw_selector_timeout"
    by (simp add: page_opens_def pw_selector_timeout_def pw_ok_def)
  have t: "timeout request_example = Some 30"
    and sel: "wait_for_selector request_example = Some ''#late''" "''#late'' \<noteq> []"
    by (simp_all add: request_example_def)
  have nav: "page_goto pw_selector_timeout (ScrapeRequest.url request_example) (30 * 1000)
               ''networkidle'' = Inr (Some 200)"
    by (simp add: pw_selector_timeout_def pw_ok_def)
  have miss: "page_wait_for_selector pw_selector_timeout ''#late'' (30 * 1000)
                = Inl (PlaywrightTimeoutError ''Timeout 30000ms exceeded.'')"
    by (simp add: pw_selector_timeout_def)
  have kind: "PlaywrightTimeoutError ''Timeout 30000ms exceeded.''
                = PlaywrightTimeoutError ''Timeout 30000ms exceeded.'' \<or>
              PlaywrightTimeoutError ''Timeout 30000ms exceeded.''
                = TimeoutError ''Timeout 30000ms exceeded.''"
    by simp
  have rest: "teardown_ok pw_selector_timeout \<and> page_content pw_selector_timeout = Inr ''<html></html>''"
    by (simp add: teardown_ok_def pw_selector_timeout_def pw_ok_def)
  have u: "ScrapeRequest.url request_example = ''https://example.com/''"
    by (simp add: request_example_def)
  note c1 = C1_selector_timeout_is_caught [where h = "''<html></html>''",
      OF opens t sel nav miss kind]
  from c1 rest have "fst (scrape_url pw_selector_timeout request_example) =
        Inr \<lparr>html = ''<html></html>'', url = ScrapeRequest.url request_example, status_code = 200,
             success = True, error = None\<rparr> \<and>
      http_status (fst (scrape_url pw_selector_timeout request_example)) = 200"
    by blast
  then have a: "fst (scrape_url pw_selector_timeout request_example) =
        Inr \<lparr>html = ''<html></html>'', url = ''https://example.com/'', status_code = 200,
             success = True, error = None\<rparr>"
    and b: "http_status (fst (scrape_url pw_selector_timeout request_example)) = 200"
    using u by (simp_all add: http_status_def)
  from c1 have c: "fst (scrape_url pw_selector_timeout request_example) =
     fst (scrape_url (pw_selector_timeout\<lparr>page_wait_for_selector := (\<lambda>s ms. Inr ())\<rparr>)
            request_example)"
    by (rule conjunct1)
  from miss a b c show ?thesis by (intro conjI)
qed

text \<open>
  The navigation. The handler for \<open>asyncio.TimeoutError\<close> answers 408, and that is the only
  way to 408; the timeout the browser library raises is not of that class, so a navigation
  that runs out of time is answered by the handler for \<open>Exception\<close>, with 500.
\<close>

lemma asyncio_timeout_is_408:
  assumes "page_opens pw" and "teardown_ok pw" and "timeout request = Some t"
    and "page_goto pw (ScrapeRequest.url request) (t * 1000) ''networkidle'' = Inl (TimeoutError m)"
  shows "fst (scrape_url pw request) =
           Inl (HTTPException 408 (''Request timeout after '' @ str_int t @ '' seconds'') [])"
  using assms
  by (simp add: scrape_url_outcome outcome page_opens_def teardown_ok_def str_optional_int_def)

lemma navigation_timeout_is_500:
  assumes "page_opens pw" and "teardown_ok pw" and "timeout request = Some t"
    and "page_goto pw (ScrapeRequest.url request) (t * 1000) ''networkidle''
           = Inl (PlaywrightTimeoutError m)"
  shows "fst (scrape_url pw request) = Inl (HTTPException 500 (''Scraping failed: '' @ m) [])"
  using assms
  by (simp add: scrape_url_outcome outcome page_opens_def teardown_ok_def str_exn_def)

lemma navigation_timeout_example:
  "fst (scrape_url pw_navigation_timeout request_example) =
     Inl (HTTPException 500 ''Scraping failed: Timeout 30000ms exceeded.'' [])"
  by (simp add: scrape_url_outcome outcome pw_navigation_timeout_def pw_ok_def request_example_def
        str_exn_def)

subsection \<open>Navigation without a response\<close>

text \<open>
  C2: the specification says that a navigation yielding no response object is answered
  with HTTP 400. The handler raises the exception with status 400 inside its own \<open>try\<close>,
  where the handler for \<open>Exception\<close> catches it: the request is answered with 500, the
  400 surviving only inside the detail.
\<close>

theorem C2_no_response_is_500:
  "page_goto pw_no_response (ScrapeRequest.url request_example) 30000 ''networkidle'' = Inr None \<and>
   fst (scrape_url pw_no_response request_example) =
     Inl (HTTPException 500 ''Scraping failed: 400: Failed to load the page'' [])"
  by (simp add: scrape_url_outcome outcome pw_no_response_def pw_ok_def request_example_def
        str_exn_def starlette_str_def str_int_def str_nat.simps digit_char_def)

text \<open>No request at all is answered with 400 by the handler.\<close>

lemma scrape_url_never_400: "http_status (fst (scrape_url pw request)) \<noteq> 400"
  by (simp add: scrape_url_outcome http_status_def split: sum.splits exn.splits)

subsection \<open>Authentication\<close>

lemma HTTPBearer_rejects: "HTTPBearer authorization = Inl e \<Longrightarrow> e = not_authenticated"
  by (auto simp: HTTPBearer_def split: prod.splits if_splits)

lemma HTTPBearer_missing: "HTTPBearer None = Inl not_authenticated"
  by (simp add: HTTPBearer_def get_authorization_scheme_param_def)

lemma HTTPBearer_token:
  "token \<noteq> [] \<Longrightarrow> HTTPBearer (Some (''Bearer '' @ token)) = Inr token"
  by (simp add: HTTPBearer_def get_authorization_scheme_param_def lower_char_def)

text \<open>
  C3, as the specification states it: a request whose bearer token is invalid or missing is
  answered with 401 and a challenge header, regardless of whether its body is valid. A
  body that does not decode as JSON is answered with 422 before the token is looked at,
  whether the token is wrong or missing.
\<close>

theorem C3_undecodable_body_is_422:
  "HTTPBearer (Some ''Bearer guess'') = Inr ''guess'' \<and> ''guess'' \<noteq> VALID_TOKEN None \<and>
   http_status (fst (scrape_endpoint HTTPBearer (VALID_TOKEN None) pydantic_2 pw_ok
      (Some ''Bearer guess'') Undecodable)) = 422 \<and>
   http_status (fst (scrape_endpoint HTTPBearer (VALID_TOKEN None) pydantic_2 pw_ok
      None Undecodable)) = 422"
  by (simp add: scrape_endpoint_def http_status_def VALID_TOKEN_def HTTPBearer_def
        get_authorization_scheme_param_def lower_char_def)

text \<open>
  C3, amended: a request whose body decodes as JSON, or is empty, and whose bearer token
  is missing or invalid is answered with 401 and the header \<open>WWW-Authenticate: Bearer\<close>,
  whether or not the body fits the schema, and the browser is not touched. Missing: no
  \<open>Authorization\<close> header, answered by the scheme. Invalid: a token that differs from the
  configured secret, answered by \<open>verify_token\<close>. The last part covers every header the
  scheme does not turn into the secret. A body that does not decode as JSON is answered
  with 422 whatever the token.
\<close>

theorem C3_rejected_token_is_401:
  "(p \<noteq> Undecodable \<and> authorization = None \<longrightarrow>
      scrape_endpoint HTTPBearer valid_token lib pw authorization p =
        (Inl (HTTPException 401 ''Not authenticated'' [(''WWW-Authenticate'', ''Bearer'')]), [])) \<and>
   (p \<noteq> Undecodable \<and> authorization = Some (''Bearer '' @ token) \<and> token \<noteq> [] \<and>
    token \<noteq> valid_token \<longrightarrow>
      scrape_endpoint HTTPBearer valid_token lib pw authorization p =
        (Inl (HTTPException 401 ''Invalid authentication token''
               [(''WWW-Authenticate'', ''Bearer'')]), [])) \<and>
   (p \<noteq> Undecodable \<and> HTTPBearer authorization \<noteq> Inr valid_token \<longrightarrow>
      http_status (fst (scrape_endpoint HTTPBearer valid_token lib pw authorization p)) = 401 \<and>
      http_headers (fst (scrape_endpoint HTTPBearer valid_token lib pw authorization p))
        = [(''WWW-Authenticate'', ''Bearer'')] \<and>
      snd (scrape_endpoint HTTPBearer valid_token lib pw authorization p) = []) \<and>
   scrape_endpoint HTTPBearer valid_token lib pw authorization Undecodable =
     (Inl (RequestValidationError ''body''), [])"
proof -
  have missing: "p \<noteq> Undecodable \<and> authorization = None \<longrightarrow>
      scrape_endpoint HTTPBearer valid_token lib pw authorization p =
        (Inl (HTTPException 401 ''Not authenticated'' [(''WWW-Authenticate'', ''Bearer'')]), [])"
    by (simp add: scrape_endpoint_def HTTPBearer_missing not_authenticated_def)
  have invalid: "p \<noteq> Undecodable \<and> authorization = Some (''Bearer '' @ token) \<and> token \<noteq> [] \<and>
      token \<noteq> valid_token \<longrightarrow>
      scrape_endpoint HTTPBearer valid_token lib pw authorization p =
        (Inl (HTTPException 401 ''Invalid authentication token''
               [(''WWW-Authenticate'', ''Bearer'')]), [])"
    using HTTPBearer_token [of token]
    by (auto simp: scrape_endpoint_def verify_token_def)
  have rejected: "p \<noteq> Undecodable \<and> HTTPBearer authorization \<noteq> Inr valid_token \<longrightarrow>
      http_status (fst (scrape_endpoint HTTPBearer valid_token lib pw authorization p)) = 401 \<and>
      http_headers (fst (scrape_endpoint HTTPBearer valid_token lib pw authorization p))
        = [(''WWW-Authenticate'', ''Bearer'')] \<and>
      snd (scrape_endpoint HTTPBearer valid_token lib pw authorization p) = []"
  proof (cases "HTTPBearer authorization")
    case (Inl e)
    then have "e = not_authenticated" by (rule HTTPBearer_rejects)
    with Inl show ?thesis
      by (simp add: scrape_endpoint_def not_authenticated_def http_status_def http_headers_def)
  next
    case (Inr credentials)
    then show ?thesis
      by (simp add: scrape_endpoint_def verify_token_def http_status_def http_headers_def)
  qed
  have undecodable: "scrape_endpoint HTTPBearer valid_token lib pw authorization Undecodable =
      (Inl (RequestValidationError ''body''), [])"
    by (simp add: scrape_endpoint_def)
  from missing invalid rejected undecodable show ?thesis by (intro conjI)
qed

theorem C3_rejected_token_is_401_witness:
  "scrape_endpoint HTTPBearer (VALID_TOKEN None) pydantic_2 pw_ok None (Object body_example) =
     (Inl (HTTPException 401 ''Not authenticated'' [(''WWW-Authenticate'', ''Bearer'')]), []) \<and>
   scrape_endpoint HTTPBearer (VALID_TOKEN None) pydantic_2 pw_ok (Some ''Bearer guess'') NoObject =
     (Inl (HTTPException 401 ''Invalid authentication token''
            [(''WWW-Authenticate'', ''Bearer'')]), []) \<and>
   http_status (fst (scrape_endpoint HTTPBearer (VALID_TOKEN None) pydantic_2 pw_ok
      (Some ''Basic guess'') (Object body_example))) = 401"
proof -
  have a: "Object body_example \<noteq> Undecodable \<and> (None :: string option) = None"
    by simp
  have b: "NoObject \<noteq> Undecodable \<and> Some ''Bearer guess'' = Some (''Bearer '' @ ''guess'') \<and>
      ''guess'' \<noteq> [] \<and> ''guess'' \<noteq> VALID_TOKEN None"
    by (simp add: VALID_TOKEN_def)
  have c: "Object body_example \<noteq> Undecodable \<and>
      HTTPBearer (Some ''Basic guess'') \<noteq> Inr (VALID_TOKEN None)"
    by (simp add: HTTPBearer_def get_authorization_scheme_param_def lower_char_def)
  have "scrape_endpoint HTTPBearer (VALID_TOKEN None) pydantic_2 pw_ok None (Object body_example) =
     (Inl (HTTPException 401 ''Not authenticated'' [(''WWW-Authenticate'', ''Bearer'')]), [])"
    using C3_rejected_token_is_401 [where p = "Object body_example" and authorization = None
        and valid_token = "VALID_TOKEN None" and lib = pydantic_2 and pw = pw_ok] a
    by blast
  moreover have "scrape_endpoint HTTPBearer (VALID_TOKEN None) pydantic_2 pw_ok
       (Some ''Bearer guess'') NoObject =
     (Inl (HTTPException 401 ''Invalid authentication token''
            [(''WWW-Authenticate'', ''Bearer'')]), [])"
    using C3_rejected_token_is_401 [where p = NoObject and authorization = "Some ''Bearer guess''"
        and token = "''guess''" and valid_token = "VALID_TOKEN None" and lib = pydantic_2
        and pw = pw_ok] b
    by blast
  moreover have "http_status (fst (scrape_endpoint HTTPBearer (VALID_TOKEN None) pydantic_2 pw_ok
      (Some ''Basic guess'') (Object body_example))) = 401"
    using C3_rejected_token_is_401 [where p = "Object body_example"
        and authorization = "Some ''Basic guess''" and valid_token = "VALID_TOKEN None"
        and lib = pydantic_2 and pw = pw_ok] c
    by blast
  ultimately show ?thesis by (intro conjI)
qed

subsection \<open>The browser is closed\<close>

lemma page_steps_no_launch_close:
  "Launch h a \<notin> set (snd (page_steps pw request)) \<and> Close \<notin> set (snd (page_steps pw request))"
  using page_steps_steps [of pw request] by fastforce

lemma page_steps_before_close:
  "dropWhile (\<lambda>ev. ev \<noteq> Close) (snd (page_steps pw request) @ evs)
     = dropWhile (\<lambda>ev. ev \<noteq> Close) evs"
  using page_steps_no_launch_close [of _ _ pw request] by (simp add: dropWhile_append)

text \<open>
  C4, as the specification states it: every request creates exactly one browser instance
  and closes it exactly once. A request whose launch fails creates no browser and calls
  \<open>close\<close> on none.
\<close>

theorem C4_launch_failure_creates_no_browser:
  "browsers_created pw_launch_fails (snd (scrape_url pw_launch_fails request_example)) = 0 \<and>
   count_list (snd (scrape_url pw_launch_fails request_example)) Close = 0 \<and>
   http_status (fst (scrape_url pw_launch_fails request_example)) = 500"
  by (simp add: browsers_created_def scrape_url_trace scrape_block_trace launch_and_scrape_trace
        scrape_url_outcome outcome pw_launch_fails_def pw_ok_def http_status_def)

text \<open>
  C4, amended: a request that reaches the handler creates at most one browser instance,
  exactly one when the playwright context starts and the launch answers, none otherwise;
  \<open>close\<close> is called exactly once on a browser that was created and not at all when none
  was, on every exit path; and no call uses the browser after \<open>close\<close>.
\<close>

theorem C4_browser_closed_exactly_once:
  "browsers_created pw (snd (scrape_url pw request)) =
     (if playwright_start pw = Inr () \<and> chromium_launch pw True launch_args = Inr () then 1 else 0) \<and>
   count_list (snd (scrape_url pw request)) Close = browsers_created pw (snd (scrape_url pw request)) \<and>
   filter uses_browser (dropWhile (\<lambda>ev. ev \<noteq> Close) (snd (scrape_url pw request))) = []"
proof -
  have no: "count_list (snd (page_steps pw request)) (Launch True launch_args) = 0"
           "count_list (snd (page_steps pw request)) Close = 0"
    using page_steps_no_launch_close [of True launch_args pw request] by simp_all
  obtain l where tr: "snd (scrape_url pw request) = snd (scrape_block pw request) @ l"
    and l: "l = [] \<or> (\<exists>m. l = [LogError m])"
    by (auto simp: scrape_url_trace split: sum.splits exn.splits)
  from l have log: "count_list l Close = 0" "count_list l (Launch True launch_args) = 0"
    "filter uses_browser l = []" "dropWhile (\<lambda>ev. ev \<noteq> Close) l = []"
    by auto
  show ?thesis
    by (cases "playwright_start pw"; cases "chromium_launch pw True launch_args")
       (simp_all add: browsers_created_def tr scrape_block_trace
          launch_and_scrape_trace no log page_steps_before_close)
qed

theorem C4_browser_closed_exactly_once_witness:
  "browsers_created pw_no_response (snd (scrape_url pw_no_response request_example)) = 1 \<and>
   count_list (snd (scrape_url pw_no_response request_example)) Close = 1 \<and>
   browsers_created pw_launch_fails (snd (scrape_url pw_launch_fails request_example)) = 0 \<and>
   count_list (snd (scrape_url pw_launch_fails request_example)) Close = 0"
  using C4_browser_closed_exactly_once [of pw_no_response request_example]
    C4_browser_closed_exactly_once [of pw_launch_fails request_example]
  by (simp add: pw_no_response_def pw_launch_fails_def pw_ok_def)

subsection \<open>A selector that never appears\<close>

text \<open>
  C5: an authenticated request whose \<open>wait_for_selector\<close> names a selector that never
  appears still completes with HTTP 200 and the HTML of the page. Whatever exception the
  wait raises, it is written to the log as a warning and goes no further: the calls after
  it are made as usual and the response is the one of a request whose page loads.
\<close>

theorem C5_selector_miss_is_not_fatal:
  assumes "security authorization = Inr valid_token"
    and "validate lib b = Inr request"
    and "page_opens pw" and "teardown_ok pw"
    and "timeout request = Some t"
    and "wait_for_selector request = Some sel" and "sel \<noteq> []"
    and "page_goto pw (ScrapeRequest.url request) (t * 1000) ''networkidle'' = Inr (Some st)"
    and "page_wait_for_selector pw sel (t * 1000) = Inl e"
    and "page_content pw = Inr h"
  shows "scrape_endpoint security valid_token lib pw authorization (Object b) =
           (Inr \<lparr>html = h, url = ScrapeRequest.url request, status_code = st,
                 success = True, error = None\<rparr>,
            [Start, Launch True launch_args, NewPage USER_AGENT, SetViewportSize 1920 1080,
             Goto (ScrapeRequest.url request) (t * 1000) ''networkidle'',
             WaitForSelector sel (t * 1000),
             LogWarning (''Selector '' @ sel @ '' not found: '' @ str_exn pw e)]
            @ extra_wait request @ [Content, Close, Stop]) \<and>
         http_status (fst (scrape_endpoint security valid_token lib pw authorization (Object b))) = 200"
proof -
  have "scrape_endpoint security valid_token lib pw authorization (Object b) = scrape_url pw request"
    using assms(1,2) by (rule scrape_endpoint_authenticated)
  moreover have "wait_selector pw request t =
      [WaitForSelector sel (t * 1000),
       LogWarning (''Selector '' @ sel @ '' not found: '' @ str_exn pw e)]"
    using assms(6,7,9) by (simp add: wait_selector_def)
  ultimately show ?thesis
    using scrape_url_success [OF assms(3,4,5,8,10)] by (simp add: http_status_def)
qed

theorem C5_selector_miss_is_not_fatal_witness:
  "page_wait_for_selector pw_selector_timeout ''#late'' (30 * 1000)
     = Inl (PlaywrightTimeoutError ''Timeout 30000ms exceeded.'') \<and>
   scrape_endpoint HTTPBearer (VALID_TOKEN None) pydantic_2
       pw_selector_timeout (Some ''Bearer your-secret-token-here'') (Object body_example) =
     (Inr \<lparr>html = ''<html></html>'', url = ''https://example.com/'', status_code = 200,
           success = True, error = None\<rparr>,
      [Start, Launch True launch_args, NewPage USER_AGENT, SetViewportSize 1920 1080,
       Goto ''https://example.com/'' 30000 ''networkidle'', WaitForSelector ''#late'' 30000,
       LogWarning ''Selector #late not found: Timeout 30000ms exceeded.'',
       Sleep 3, Content, Close, Stop])"
proof -
  have sec: "HTTPBearer (Some ''Bearer your-secret-token-here'') = Inr (VALID_TOKEN None)"
    by (simp add: HTTPBearer_def get_authorization_scheme_param_def lower_char_def VALID_TOKEN_def)
  have val: "validate pydantic_2 body_example = Inr request_example"
    by (simp add: validate_def pydantic_2_def body_example_def request_example_def)
  have opens: "page_opens pw_selector_timeout"
    by (simp add: page_opens_def pw_selector_timeout_def pw_ok_def)
  have down: "teardown_ok pw_selector_timeout"
    by (simp add: teardown_ok_def pw_selector_timeout_def pw_ok_def)
  have t: "timeout request_example = Some 30"
    and sel: "wait_for_selector request_example = Some ''#late''" "''#late'' \<noteq> []"
    by (simp_all add: request_example_def)
  have nav: "page_goto pw_selector_timeout (ScrapeRequest.url request_example) (30 * 1000)
               ''networkidle'' = Inr (Some 200)"
    by (simp add: pw_selector_timeout_def pw_ok_def)
  have miss: "page_wait_for_selector pw_selector_timeout ''#late'' (30 * 1000)
                = Inl (PlaywrightTimeoutError ''Timeout 30000ms exceeded.'')"
    by (simp add: pw_selector_timeout_def)
  have page: "page_content pw_selector_timeout = Inr ''<html></html>''"
    by (simp add: pw_selector_timeout_def pw_ok_def)
  from C5_selector_miss_is_not_fatal [where security = HTTPBearer
      and authorization = "Some ''Bearer your-secret-token-here''", OF sec val opens down t sel nav miss page]
    miss
  show ?thesis
    by (simp add: request_example_def extra_wait_def str_exn_def)
qed

subsection \<open>The response\<close>

text \<open>
  C6, as the specification states it: the \<open>ScrapeResponse\<close> of a valid request with a correct
  token, whose page returns a response, has \<open>url\<close> equal to the input URL. The response
  carries \<open>str(request.url)\<close>, the validated URL as pydantic renders it: the input
  \<open>https://example.com\<close> comes back as \<open>https://example.com/\<close>.
\<close>

theorem C6_url_is_rendered:
  "json_url body_example = Given ''https://example.com'' \<and>
   fst (scrape_endpoint HTTPBearer (VALID_TOKEN None) pydantic_2 pw_ok
       (Some ''Bearer your-secret-token-here'') (Object body_example)) =
     Inr \<lparr>html = ''<html></html>'', url = ''https://example.com/'', status_code = 200,
          success = True, error = None\<rparr> \<and>
   ''https://example.com/'' \<noteq> ''https://example.com''"
  by (simp add: scrape_endpoint_def HTTPBearer_def get_authorization_scheme_param_def
        lower_char_def VALID_TOKEN_def verify_token_def request_of_def validate_def
        pydantic_2_def body_example_def scrape_url_outcome outcome pw_ok_def)

text \<open>
  C6, amended: for a valid request with a correct token whose target page returns a
  response, the \<open>ScrapeResponse\<close> has \<open>url\<close> equal to \<open>str(request.url)\<close>, the input URL as
  validated and rendered by pydantic, \<open>success = True\<close>, the serialized content of the page
  as \<open>html\<close> and the status of the navigation response as \<open>status_code\<close>. First half:
  whenever the endpoint returns a response, these are its fields. Second half: it does
  return one when the page returns a response and the other calls answer.
\<close>

theorem C6_response_fields:
  assumes "security authorization = Inr valid_token"
    and "validate lib b = Inr request"
  shows "(fst (scrape_endpoint security valid_token lib pw authorization (Object b)) = Inr r \<longrightarrow>
            (\<exists>u. json_url b = Given u \<and> HttpUrl lib u = Some (url r)) \<and>
            url r = ScrapeRequest.url request \<and> success r \<and>
            page_content pw = Inr (html r) \<and>
            (\<exists>t. timeout request = Some t \<and>
                 page_goto pw (ScrapeRequest.url request) (t * 1000) ''networkidle''
                   = Inr (Some (status_code r)))) \<and>
         (page_opens pw \<and> teardown_ok pw \<and> timeout request = Some t \<and>
          page_goto pw (ScrapeRequest.url request) (t * 1000) ''networkidle'' = Inr (Some st) \<and>
          page_content pw = Inr h \<longrightarrow>
            fst (scrape_endpoint security valid_token lib pw authorization (Object b)) =
              Inr \<lparr>html = h, url = ScrapeRequest.url request, status_code = st,
                   success = True, error = None\<rparr>)"
proof -
  have ep: "scrape_endpoint security valid_token lib pw authorization (Object b)
              = scrape_url pw request"
    using assms by (rule scrape_endpoint_authenticated)
  have first: "(\<exists>u. json_url b = Given u \<and> HttpUrl lib u = Some (url r)) \<and>
      url r = ScrapeRequest.url request \<and> success r \<and>
      page_content pw = Inr (html r) \<and>
      (\<exists>t. timeout request = Some t \<and>
           page_goto pw (ScrapeRequest.url request) (t * 1000) ''networkidle''
             = Inr (Some (status_code r)))"
    if ret: "fst (scrape_url pw request) = Inr r"
  proof -
    from scrape_url_returns [OF ret] obtain t' st' h'
      where t': "timeout request = Some t'"
        and nav: "page_goto pw (ScrapeRequest.url request) (t' * 1000) ''networkidle'' = Inr (Some st')"
        and page: "page_content pw = Inr h'"
        and r: "r = \<lparr>html = h', url = ScrapeRequest.url request, status_code = st',
                      success = True, error = None\<rparr>"
      by blast
    have "\<exists>u. json_url b = Given u \<and> HttpUrl lib u = Some (ScrapeRequest.url request)"
      using assms(2) by (auto simp: validate_def split: field.splits option.splits)
    with t' nav page show ?thesis by (simp add: r)
  qed
  have second: "fst (scrape_url pw request) =
      Inr \<lparr>html = h, url = ScrapeRequest.url request, status_code = st,
           success = True, error = None\<rparr>"
    if "page_opens pw \<and> teardown_ok pw \<and> timeout request = Some t \<and>
       page_goto pw (ScrapeRequest.url request) (t * 1000) ''networkidle'' = Inr (Some st) \<and>
       page_content pw = Inr h"
    using that scrape_url_success [of pw request t st h] by simp
  have A: "fst (scrape_url pw request) = Inr r \<longrightarrow>
      (\<exists>u. json_url b = Given u \<and> HttpUrl lib u = Some (url r)) \<and>
      url r = ScrapeRequest.url request \<and> success r \<and>
      page_content pw = Inr (html r) \<and>
      (\<exists>t. timeout request = Some t \<and>
           page_goto pw (ScrapeRequest.url request) (t * 1000) ''networkidle''
             = Inr (Some (status_code r)))"
    by (rule impI) (rule first)
  have B: "page_opens pw \<and> teardown_ok pw \<and> timeout request = Some t \<and>
       page_goto pw (ScrapeRequest.url request) (t * 1000) ''networkidle'' = Inr (Some st) \<and>
       page_content pw = Inr h \<longrightarrow>
     fst (scrape_url pw request) =
      Inr \<lparr>html = h, url = ScrapeRequest.url request, status_code = st,
           success = True, error = None\<rparr>"
    by (rule impI) (rule second)
  from A B show ?thesis
    unfolding ep by (rule conjI)
qed

theorem C6_response_fields_witness:
  "validate pydantic_2 body_example = Inr request_example \<and>
   HttpUrl pydantic_2 ''https://example.com'' = Some ''https://example.com/'' \<and>
   fst (scrape_endpoint HTTPBearer (VALID_TOKEN None) pydantic_2 pw_ok
       (Some ''Bearer your-secret-token-here'') (Object body_example)) =
     Inr \<lparr>html = ''<html></html>'', url = ''https://example.com/'', status_code = 200,
          success = True, error = None\<rparr>"
proof -
  have sec: "HTTPBearer (Some ''Bearer your-secret-token-here'') = Inr (VALID_TOKEN None)"
    by (simp add: HTTPBearer_def get_authorization_scheme_param_def lower_char_def VALID_TOKEN_def)
  have val: "validate pydantic_2 body_example = Inr request_example"
    by (simp add: validate_def pydantic_2_def body_example_def request_example_def)
  have rendered: "HttpUrl pydantic_2 ''https://example.com'' = Some ''https://example.com/''"
    by (simp add: pydantic_2_def)
  have ok: "page_opens pw_ok \<and> teardown_ok pw_ok \<and> timeout request_example = Some 30 \<and>
      page_goto pw_ok (ScrapeRequest.url request_example) (30 * 1000) ''networkidle'' = Inr (Some 200) \<and>
      page_content pw_ok = Inr ''<html></html>''"
    by (simp add: page_opens_def teardown_ok_def pw_ok_def request_example_def)
  have u: "ScrapeRequest.url request_example = ''https://example.com/''"
    by (simp add: request_example_def)
  from C6_response_fields [where security = HTTPBearer
      and authorization = "Some ''Bearer your-secret-token-here''" and pw = pw_ok and t = 30
      and st = 200 and h = "''<html></html>''" and r = "\<lparr>html = ''<html></html>'',
        url = ''https://example.com/'', status_code = 200, success = True, error = None\<rparr>",
      OF sec val]
  have "page_opens pw_ok \<and> teardown_ok pw_ok \<and> timeout request_example = Some 30 \<and>
      page_goto pw_ok (ScrapeRequest.url request_example) (30 * 1000) ''networkidle'' = Inr (Some 200) \<and>
      page_content pw_ok = Inr ''<html></html>'' \<longrightarrow>
    fst (scrape_endpoint HTTPBearer (VALID_TOKEN None) pydantic_2 pw_ok
       (Some ''Bearer your-secret-token-here'') (Object body_example)) =
     Inr \<lparr>html = ''<html></html>'', url = ScrapeRequest.url request_example, status_code = 200,
          success = True, error = None\<rparr>"
    by (rule conjunct2)
  from this ok have "fst (scrape_endpoint HTTPBearer (VALID_TOKEN None) pydantic_2 pw_ok
       (Some ''Bearer your-secret-token-here'') (Object body_example)) =
     Inr \<lparr>html = ''<html></html>'', url = ScrapeRequest.url request_example, status_code = 200,
          success = True, error = None\<rparr>"
    by (rule mp)
  then have "fst (scrape_endpoint HTTPBearer (VALID_TOKEN None) pydantic_2 pw_ok
       (Some ''Bearer your-secret-token-here'') (Object body_example)) =
     Inr \<lparr>html = ''<html></html>'', url = ''https://example.com/'', status_code = 200,
          success = True, error = None\<rparr>"
    by (simp only: u)
  with val rendered show ?thesis by (intro conjI)
qed

text \<open>
  C9: every \<open>ScrapeResponse\<close> the endpoint returns has \<open>success = True\<close> and \<open>error = None\<close>.
\<close>

theorem C9_returned_response_is_success:
  assumes "fst (scrape_endpoint security valid_token lib pw authorization p) = Inr r"
  shows "success r \<and> error r = None"
proof -
  from scrape_endpoint_returns [OF assms] obtain request
    where "fst (scrape_url pw request) = Inr r" by blast
  from scrape_url_returns [OF this] show ?thesis by auto
qed

theorem C9_returned_response_is_success_witness:
  "fst (scrape_endpoint HTTPBearer (VALID_TOKEN None) pydantic_2 pw_ok
       (Some ''Bearer your-secret-token-here'') (Object body_example)) =
     Inr \<lparr>html = ''<html></html>'', url = ''https://example.com/'', status_code = 200,
          success = True, error = None\<rparr> \<and>
   success \<lparr>html = ''<html></html>'', url = ''https://example.com/'', status_code = 200,
          success = True, error = None\<rparr> \<and>
   error \<lparr>html = ''<html></html>'', url = ''https://example.com/'', status_code = 200,
          success = True, error = None\<rparr> = None"
proof -
  have run: "fst (scrape_endpoint HTTPBearer (VALID_TOKEN None) pydantic_2 pw_ok
       (Some ''Bearer your-secret-token-here'') (Object body_example)) =
     Inr \<lparr>html = ''<html></html>'', url = ''https://example.com/'', status_code = 200,
          success = True, error = None\<rparr>"
    by (simp add: scrape_endpoint_def HTTPBearer_def get_authorization_scheme_param_def
          lower_char_def VALID_TOKEN_def verify_token_def request_of_def validate_def
          pydantic_2_def body_example_def scrape_url_outcome outcome pw_ok_def)
  from C9_returned_response_is_success [where security = HTTPBearer
      and authorization = "Some ''Bearer your-secret-token-here''", OF run] run
  show ?thesis by blast
qed

subsection \<open>Unexpected failures\<close>

lemma page_failure_outcome:
  assumes "page_failure pw request e"
  shows "fst (page_steps pw request) = Inl e"
  using assms
  by (auto simp: page_failure_def page_steps_outcome navigate_outcome
           split: option.splits sum.splits)

lemma scrape_failure_outcome:
  assumes "scrape_failure pw request e"
  shows "fst (scrape_block pw request) = Inl e"
  using assms page_failure_outcome [of pw request e]
  by (auto simp: scrape_failure_def scrape_block_outcome launch_and_scrape_outcome
        with_browser_outcome)

text \<open>
  C7, as the specification states it: any failure during scraping other than a timeout, a
  navigation failure or an authentication failure is answered with HTTP 500. A selector
  wait that fails, and not by a timeout, is such a failure and is not answered with 500:
  the handler catches it at the wait, and the request is answered with 200.
\<close>

theorem C7_selector_failure_is_200:
  "page_wait_for_selector pw_selector_error ''#late'' 30000
     = Inl (OtherException ''Unexpected token'') \<and>
   scrape_url pw_selector_error request_example =
     (Inr \<lparr>html = ''<html></html>'', url = ''https://example.com/'', status_code = 200,
           success = True, error = None\<rparr>,
      [Start, Launch True launch_args, NewPage USER_AGENT, SetViewportSize 1920 1080,
       Goto ''https://example.com/'' 30000 ''networkidle'', WaitForSelector ''#late'' 30000,
       LogWarning ''Selector #late not found: Unexpected token'',
       Sleep 3, Content, Close, Stop]) \<and>
   http_status (fst (scrape_url pw_selector_error request_example)) = 200"
  by (simp add: scrape_defs wait_selector_def extra_wait_def pw_selector_error_def pw_ok_def
        request_example_def http_status_def str_exn_def)

text \<open>
  C7, amended: an exception that is not a timeout, raised by a call of the scrape other
  than the selector wait, with no call made after it raising in its turn, is answered with
  HTTP 500 and the detail \<open>Scraping failed:\<close> followed by the message of the exception,
  after an error line with the URL and that message is logged as the last thing the
  request does; an exception of the selector wait is caught at the wait instead; and
  nothing is retried: the steps of every request are taken at most once each, in the
  order of the source.
\<close>

theorem C7_failure_is_500:
  assumes "scrape_failure pw request e"
    and "\<forall>m. e \<noteq> TimeoutError m" and "\<forall>m. e \<noteq> PlaywrightTimeoutError m"
  shows "(let message = (case e of
                           TimeoutError m \<Rightarrow> m
                         | PlaywrightTimeoutError m \<Rightarrow> m
                         | HTTPException c d h \<Rightarrow> str_HTTPException pw c d
                         | RequestValidationError m \<Rightarrow> m
                         | OtherException m \<Rightarrow> m)
          in fst (scrape_url pw request) =
               Inl (HTTPException 500 (''Scraping failed: '' @ message) []) \<and>
             snd (scrape_url pw request) =
               snd (scrape_block pw request) @
               [LogError (''Scraping error for '' @ ScrapeRequest.url request @ '': '' @ message)]) \<and>
         http_status (fst (scrape_url pw request)) = 500 \<and>
         sorted_wrt (<) (map step_number (snd (scrape_url pw request)))"
proof -
  from assms(1) have block: "fst (scrape_block pw request) = Inl e"
    by (rule scrape_failure_outcome)
  with assms(2) have out: "fst (scrape_url pw request) =
      Inl (HTTPException 500 (''Scraping failed: '' @ str_exn pw e) [])"
    by (cases e) (simp_all add: scrape_url_outcome)
  from block assms(2) have tr: "snd (scrape_url pw request) =
      snd (scrape_block pw request) @
      [LogError (''Scraping error for '' @ ScrapeRequest.url request @ '': '' @ str_exn pw e)]"
    by (cases e) (simp_all add: scrape_url_trace)
  have message: "str_exn pw e = (case e of
        TimeoutError m \<Rightarrow> m
      | PlaywrightTimeoutError m \<Rightarrow> m
      | HTTPException c d h \<Rightarrow> str_HTTPException pw c d
      | RequestValidationError m \<Rightarrow> m
      | OtherException m \<Rightarrow> m)"
    by (cases e) (simp_all add: str_exn_def)
  from out tr show ?thesis
    using scrape_url_steps [of pw request]
    by (simp add: message [symmetric] http_status_def Let_def)
qed

theorem C7_failure_is_500_witness:
  "scrape_failure pw_content_fails request_example (OtherException ''Target closed'') \<and>
   scrape_url pw_content_fails request_example =
     (Inl (HTTPException 500 ''Scraping failed: Target closed'' []),
      [Start, Launch True launch_args, NewPage USER_AGENT, SetViewportSize 1920 1080,
       Goto ''https://example.com/'' 30000 ''networkidle'', WaitForSelector ''#late'' 30000,
       Sleep 3, Content, Close, Stop,
       LogError ''Scraping error for https://example.com/: Target closed''])"
proof -
  have fails: "scrape_failure pw_content_fails request_example (OtherException ''Target closed'')"
    by (simp add: scrape_failure_def page_failure_def pw_content_fails_def pw_ok_def
          request_example_def)
  have other: "\<forall>m. OtherException ''Target closed'' \<noteq> TimeoutError m"
    "\<forall>m. OtherException ''Target closed'' \<noteq> PlaywrightTimeoutError m"
    by simp_all
  have tr: "snd (scrape_block pw_content_fails request_example) =
      [Start, Launch True launch_args, NewPage USER_AGENT, SetViewportSize 1920 1080,
       Goto ''https://example.com/'' 30000 ''networkidle'', WaitForSelector ''#late'' 30000,
       Sleep 3, Content, Close, Stop]"
    by (simp add: scrape_block_def launch_and_scrape_def with_browser_def page_steps_def
          navigate_def extract_content_def wait_selector_def extra_wait_def
          pw_content_fails_def pw_ok_def request_example_def)
  have u: "ScrapeRequest.url request_example = ''https://example.com/''"
    by (simp add: request_example_def)
  from C7_failure_is_500 [OF fails other] tr u
  have "scrape_url pw_content_fails request_example =
     (Inl (HTTPException 500 ''Scraping failed: Target closed'' []),
      [Start, Launch True launch_args, NewPage USER_AGENT, SetViewportSize 1920 1080,
       Goto ''https://example.com/'' 30000 ''networkidle'', WaitForSelector ''#late'' 30000,
       Sleep 3, Content, Close, Stop,
       LogError ''Scraping error for https://example.com/: Target closed''])"
    by (simp add: prod_eq_iff Let_def)
  with fails show ?thesis by (rule conjI)
qed

subsection \<open>Time budgets and the schema\<close>

lemma navigate_budget:
  assumes "ev \<in> set (snd (navigate pw request))"
  shows "(\<forall>u ms w. ev = Goto u ms w \<longrightarrow> (\<exists>t. timeout request = Some t \<and> ms = t * 1000)) \<and>
         (\<forall>s ms. ev = WaitForSelector s ms \<longrightarrow> (\<exists>t. timeout request = Some t \<and> ms = t * 1000)) \<and>
         (\<forall>n. ev = Sleep n \<longrightarrow> wait_time request = Some n \<and> 0 < n)"
  using assms
  by (auto simp: navigate_def extract_content_def wait_selector_def extra_wait_def
           split: option.splits sum.splits if_splits)

lemma scrape_url_events:
  assumes "ev \<in> set (snd (scrape_url pw request))" and "4 \<le> step_number ev" and "step_number ev \<le> 8"
  shows "ev \<in> set (snd (navigate pw request))"
proof -
  obtain l where tr: "snd (scrape_url pw request) = snd (scrape_block pw request) @ l"
    and l: "l = [] \<or> (\<exists>m. l = [LogError m])"
    by (auto simp: scrape_url_trace split: sum.splits exn.splits)
  from l assms(3) have "ev \<notin> set l"
    by auto
  with assms(1) have "ev \<in> set (snd (scrape_block pw request))"
    by (simp add: tr)
  then have "ev \<in> set (snd (page_steps pw request))"
    using assms(2,3)
    by (auto simp: scrape_block_trace launch_and_scrape_trace split: sum.splits)
  then show ?thesis
    using assms(2)
    by (cases "navigate pw request") (auto simp: page_steps_def split: sum.splits)
qed

lemma scrape_url_goto:
  assumes "page_opens pw" and "timeout request = Some t"
  shows "Goto (ScrapeRequest.url request) (t * 1000) ''networkidle'' \<in> set (snd (scrape_url pw request))"
proof -
  have "Goto (ScrapeRequest.url request) (t * 1000) ''networkidle'' \<in> set (snd (navigate pw request))"
    using assms(2) by (simp add: navigate_def extract_content_def split: sum.splits option.splits)
  then have "Goto (ScrapeRequest.url request) (t * 1000) ''networkidle''
      \<in> set (snd (page_steps pw request))"
    using assms(1)
    by (cases "navigate pw request") (simp add: page_steps_def page_opens_def)
  then show ?thesis
    using assms(1)
    by (simp add: scrape_url_trace scrape_block_trace launch_and_scrape_trace page_opens_def)
qed

text \<open>
  C8: the navigation deadline and the budget of the selector wait are each the \<open>timeout\<close>
  of the request in seconds, which is 30 when the field is left out. The library takes
  milliseconds: every \<open>page.goto\<close> and every \<open>wait_for_selector\<close> a request makes is given
  1000 times its \<open>timeout\<close>; the navigation is made with it whenever the page opens, and
  the selector wait whenever the navigation returns a response and a selector is set. The
  \<open>timeout\<close> of the request is the integer of the body, and 30 for a body without the
  field; so a body with the timeout \<open>t\<close> is navigated with \<open>t\<close> times 1000, and a body
  without it with 30000.
\<close>

theorem C8_budgets_are_the_timeout:
  "(Goto u ms w \<in> set (snd (scrape_url pw request)) \<longrightarrow>
      (\<exists>t. timeout request = Some t \<and> ms = t * 1000)) \<and>
   (WaitForSelector s ms' \<in> set (snd (scrape_url pw request)) \<longrightarrow>
      (\<exists>t. timeout request = Some t \<and> ms' = t * 1000)) \<and>
   (page_opens pw \<and> timeout request = Some t \<longrightarrow>
      Goto (ScrapeRequest.url request) (t * 1000) ''networkidle'' \<in> set (snd (scrape_url pw request))) \<and>
   (page_opens pw \<and> timeout request = Some t \<and> wait_for_selector request = Some sel \<and> sel \<noteq> [] \<and>
    page_goto pw (ScrapeRequest.url request) (t * 1000) ''networkidle'' = Inr (Some st) \<longrightarrow>
      WaitForSelector sel (t * 1000) \<in> set (snd (scrape_url pw request))) \<and>
   (validate lib b = Inr request \<and> json_timeout b = Omitted \<longrightarrow> timeout request = Some 30) \<and>
   (validate lib b = Inr request \<and> json_timeout b = Given t \<longrightarrow> timeout request = Some t) \<and>
   (security authorization = Inr valid_token \<and> validate lib b = Inr request \<and>
    json_timeout b = Given t \<and> page_opens pw \<longrightarrow>
      Goto (ScrapeRequest.url request) (t * 1000) ''networkidle''
        \<in> set (snd (scrape_endpoint security valid_token lib pw authorization (Object b)))) \<and>
   (security authorization = Inr valid_token \<and> validate lib b = Inr request \<and>
    json_timeout b = Omitted \<and> page_opens pw \<longrightarrow>
      Goto (ScrapeRequest.url request) 30000 ''networkidle''
        \<in> set (snd (scrape_endpoint security valid_token lib pw authorization (Object b))))"
proof -
  have goto: "Goto u ms w \<in> set (snd (scrape_url pw request)) \<longrightarrow>
      (\<exists>t. timeout request = Some t \<and> ms = t * 1000)"
  proof
    assume "Goto u ms w \<in> set (snd (scrape_url pw request))"
    then have "Goto u ms w \<in> set (snd (navigate pw request))"
      by (rule scrape_url_events) simp_all
    from navigate_budget [OF this] show "\<exists>t. timeout request = Some t \<and> ms = t * 1000"
      by blast
  qed
  have wait: "WaitForSelector s ms' \<in> set (snd (scrape_url pw request)) \<longrightarrow>
      (\<exists>t. timeout request = Some t \<and> ms' = t * 1000)"
  proof
    assume "WaitForSelector s ms' \<in> set (snd (scrape_url pw request))"
    then have "WaitForSelector s ms' \<in> set (snd (navigate pw request))"
      by (rule scrape_url_events) simp_all
    from navigate_budget [OF this] show "\<exists>t. timeout request = Some t \<and> ms' = t * 1000"
      by blast
  qed
  have made: "page_opens pw \<and> timeout request = Some t \<longrightarrow>
      Goto (ScrapeRequest.url request) (t * 1000) ''networkidle'' \<in> set (snd (scrape_url pw request))"
    using scrape_url_goto [of pw request t] by blast
  have waited: "page_opens pw \<and> timeout request = Some t \<and> wait_for_selector request = Some sel \<and>
      sel \<noteq> [] \<and>
      page_goto pw (ScrapeRequest.url request) (t * 1000) ''networkidle'' = Inr (Some st) \<longrightarrow>
      WaitForSelector sel (t * 1000) \<in> set (snd (scrape_url pw request))"
  proof
    assume a: "page_opens pw \<and> timeout request = Some t \<and> wait_for_selector request = Some sel \<and>
      sel \<noteq> [] \<and>
      page_goto pw (ScrapeRequest.url request) (t * 1000) ''networkidle'' = Inr (Some st)"
    then have "WaitForSelector sel (t * 1000) \<in> set (snd (navigate pw request))"
      by (simp add: navigate_def extract_content_def wait_selector_def split: sum.splits)
    then have "WaitForSelector sel (t * 1000) \<in> set (snd (page_steps pw request))"
      using a by (cases "navigate pw request") (simp add: page_steps_def page_opens_def)
    then show "WaitForSelector sel (t * 1000) \<in> set (snd (scrape_url pw request))"
      using a
      by (simp add: scrape_url_trace scrape_block_trace launch_and_scrape_trace page_opens_def)
  qed
  have default: "validate lib b = Inr request \<and> json_timeout b = Omitted \<longrightarrow>
      timeout request = Some 30"
    by (auto simp: validate_def split: field.splits option.splits)
  have given: "validate lib b = Inr request \<and> json_timeout b = Given t \<longrightarrow>
      timeout request = Some t"
    by (auto simp: validate_def split: field.splits option.splits)
  have through: "security authorization = Inr valid_token \<and> validate lib b = Inr request \<and>
      json_timeout b = Given t \<and> page_opens pw \<longrightarrow>
      Goto (ScrapeRequest.url request) (t * 1000) ''networkidle''
        \<in> set (snd (scrape_endpoint security valid_token lib pw authorization (Object b)))"
  proof
    assume a: "security authorization = Inr valid_token \<and> validate lib b = Inr request \<and>
      json_timeout b = Given t \<and> page_opens pw"
    then have "scrape_endpoint security valid_token lib pw authorization (Object b)
        = scrape_url pw request"
      by (simp add: scrape_endpoint_authenticated)
    moreover from a given have "timeout request = Some t" by blast
    ultimately show "Goto (ScrapeRequest.url request) (t * 1000) ''networkidle''
        \<in> set (snd (scrape_endpoint security valid_token lib pw authorization (Object b)))"
      using a scrape_url_goto [of pw request t] by simp
  qed
  have through_default: "security authorization = Inr valid_token \<and> validate lib b = Inr request \<and>
      json_timeout b = Omitted \<and> page_opens pw \<longrightarrow>
      Goto (ScrapeRequest.url request) 30000 ''networkidle''
        \<in> set (snd (scrape_endpoint security valid_token lib pw authorization (Object b)))"
  proof
    assume a: "security authorization = Inr valid_token \<and> validate lib b = Inr request \<and>
      json_timeout b = Omitted \<and> page_opens pw"
    then have "scrape_endpoint security valid_token lib pw authorization (Object b)
        = scrape_url pw request"
      by (simp add: scrape_endpoint_authenticated)
    moreover from a default have "timeout request = Some 30" by blast
    ultimately show "Goto (ScrapeRequest.url request) 30000 ''networkidle''
        \<in> set (snd (scrape_endpoint security valid_token lib pw authorization (Object b)))"
      using a scrape_url_goto [of pw request 30] by simp
  qed
  from goto wait made waited default given through through_default
  show ?thesis by (intro conjI)
qed

theorem C8_budgets_are_the_timeout_witness:
  "validate pydantic_2 body_ten = Inr request_ten \<and> json_timeout body_ten = Given 10 \<and>
   timeout request_ten = Some 10 \<and>
   Goto ''https://example.com/'' 10000 ''networkidle''
     \<in> set (snd (scrape_endpoint HTTPBearer (VALID_TOKEN None) pydantic_2 pw_ok
          (Some ''Bearer your-secret-token-here'') (Object body_ten))) \<and>
   validate pydantic_2 body_example = Inr request_example \<and> json_timeout body_example = Omitted \<and>
   timeout request_example = Some 30 \<and>
   Goto ''https://example.com/'' 30000 ''networkidle''
     \<in> set (snd (scrape_endpoint HTTPBearer (VALID_TOKEN None) pydantic_2 pw_ok
          (Some ''Bearer your-secret-token-here'') (Object body_example))) \<and>
   WaitForSelector ''#late'' 30000 \<in> set (snd (scrape_url pw_ok request_example))"
proof -
  note ten = C8_budgets_are_the_timeout [where pw = pw_ok and request = request_ten
      and t = 10 and b = body_ten and lib = pydantic_2 and security = HTTPBearer
      and authorization = "Some ''Bearer your-secret-token-here''"
      and valid_token = "VALID_TOKEN None"]
  note thirty = C8_budgets_are_the_timeout [where pw = pw_ok and request = request_example
      and t = 30 and sel = "''#late''" and st = 200 and b = body_example and lib = pydantic_2
      and security = HTTPBearer and authorization = "Some ''Bearer your-secret-token-here''"
      and valid_token = "VALID_TOKEN None"]
  have sec: "HTTPBearer (Some ''Bearer your-secret-token-here'') = Inr (VALID_TOKEN None)"
    by (simp add: HTTPBearer_def get_authorization_scheme_param_def lower_char_def VALID_TOKEN_def)
  have opens: "page_opens pw_ok"
    by (simp add: page_opens_def pw_ok_def)
  have val10: "validate pydantic_2 body_ten = Inr request_ten"
    by (simp add: validate_def pydantic_2_def body_ten_def request_ten_def)
  have given: "json_timeout body_ten = Given 10"
    by (simp add: body_ten_def)
  have val30: "validate pydantic_2 body_example = Inr request_example"
    by (simp add: validate_def pydantic_2_def body_example_def request_example_def)
  have omitted: "json_timeout body_example = Omitted"
    by (simp add: body_example_def)
  have sel: "wait_for_selector request_example = Some ''#late'' \<and> ''#late'' \<noteq> []"
    by (simp add: request_example_def)
  have nav: "page_goto pw_ok (ScrapeRequest.url request_example) (30 * 1000) ''networkidle''
               = Inr (Some 200)"
    by (simp add: pw_ok_def)
  have u10: "ScrapeRequest.url request_ten = ''https://example.com/''"
    by (simp add: request_ten_def)
  have u30: "ScrapeRequest.url request_example = ''https://example.com/''"
    by (simp add: request_example_def)
  have t10: "timeout request_ten = Some 10"
    using ten val10 given by blast
  have t30: "timeout request_example = Some 30"
    using thirty val30 omitted by blast
  have "Goto (ScrapeRequest.url request_ten) (10 * 1000) ''networkidle''
     \<in> set (snd (scrape_endpoint HTTPBearer (VALID_TOKEN None) pydantic_2 pw_ok
          (Some ''Bearer your-secret-token-here'') (Object body_ten)))"
    using ten sec val10 given opens by blast
  then have g10: "Goto ''https://example.com/'' 10000 ''networkidle''
     \<in> set (snd (scrape_endpoint HTTPBearer (VALID_TOKEN None) pydantic_2 pw_ok
          (Some ''Bearer your-secret-token-here'') (Object body_ten)))"
    by (simp add: u10)
  have "Goto (ScrapeRequest.url request_example) 30000 ''networkidle''
     \<in> set (snd (scrape_endpoint HTTPBearer (VALID_TOKEN None) pydantic_2 pw_ok
          (Some ''Bearer your-secret-token-here'') (Object body_example)))"
    using thirty sec val30 omitted opens by blast
  then have g30: "Goto ''https://example.com/'' 30000 ''networkidle''
     \<in> set (snd (scrape_endpoint HTTPBearer (VALID_TOKEN None) pydantic_2 pw_ok
          (Some ''Bearer your-secret-token-here'') (Object body_example)))"
    by (simp add: u30)
  have "WaitForSelector ''#late'' (30 * 1000) \<in> set (snd (scrape_url pw_ok request_example))"
    using thirty opens t30 sel nav by blast
  then have w30: "WaitForSelector ''#late'' 30000 \<in> set (snd (scrape_url pw_ok request_example))"
    by simp
  from val10 given t10 g10 val30 omitted t30 g30 w30 show ?thesis by (intro conjI)
qed

text \<open>
  C10: the schema enforces no sign on \<open>wait_time\<close> and \<open>timeout\<close>. A body with any two
  integers is accepted as it is; a request whose \<open>wait_time\<close> is zero or negative makes no
  \<open>sleep\<close>; and a request whose \<open>timeout\<close> is zero or negative makes its navigation with
  that value, times 1000 for milliseconds and otherwise unchanged.
\<close>

theorem C10_no_bounds_on_wait_time_and_timeout:
  "(HttpUrl lib u = Some u' \<and> optional (lax_str lib) None s = Some sel \<longrightarrow>
      validate lib \<lparr>json_url = Given u, json_wait_for_selector = s,
          json_wait_time = Given w, json_timeout = Given t\<rparr> =
        Inr \<lparr>ScrapeRequest.url = u', wait_for_selector = sel,
             wait_time = Some w, timeout = Some t\<rparr>) \<and>
   (wait_time request = Some w' \<and> w' \<le> 0 \<longrightarrow> Sleep n \<notin> set (snd (scrape_url pw request))) \<and>
   (page_opens pw \<and> timeout request = Some t' \<and> t' \<le> 0 \<longrightarrow>
      Goto (ScrapeRequest.url request) (t' * 1000) ''networkidle'' \<in> set (snd (scrape_url pw request)))"
proof -
  have accepted: "HttpUrl lib u = Some u' \<and> optional (lax_str lib) None s = Some sel \<longrightarrow>
      validate lib \<lparr>json_url = Given u, json_wait_for_selector = s,
          json_wait_time = Given w, json_timeout = Given t\<rparr> =
        Inr \<lparr>ScrapeRequest.url = u', wait_for_selector = sel,
             wait_time = Some w, timeout = Some t\<rparr>"
    by (simp add: validate_def)
  have no_sleep: "wait_time request = Some w' \<and> w' \<le> 0 \<longrightarrow>
      Sleep n \<notin> set (snd (scrape_url pw request))"
  proof
    assume a: "wait_time request = Some w' \<and> w' \<le> 0"
    show "Sleep n \<notin> set (snd (scrape_url pw request))"
    proof
      assume "Sleep n \<in> set (snd (scrape_url pw request))"
      then have "Sleep n \<in> set (snd (navigate pw request))"
        by (rule scrape_url_events) simp_all
      from navigate_budget [OF this] have "wait_time request = Some n \<and> 0 < n"
        by blast
      with a show False by simp
    qed
  qed
  have passed: "page_opens pw \<and> timeout request = Some t' \<and> t' \<le> 0 \<longrightarrow>
      Goto (ScrapeRequest.url request) (t' * 1000) ''networkidle'' \<in> set (snd (scrape_url pw request))"
    using scrape_url_goto [of pw request t'] by blast
  from accepted no_sleep passed show ?thesis by (intro conjI)
qed

theorem C10_no_bounds_on_wait_time_and_timeout_witness:
  "validate pydantic_2 body_nonpositive = Inr request_nonpositive \<and>
   wait_time request_nonpositive = Some 0 \<and> timeout request_nonpositive = Some (- 5) \<and>
   Sleep 0 \<notin> set (snd (scrape_url pw_ok request_nonpositive)) \<and>
   Goto ''https://example.com/'' (- 5000) ''networkidle'' \<in> set (snd (scrape_url pw_ok request_nonpositive))"
proof -
  note c10 = C10_no_bounds_on_wait_time_and_timeout [where lib = pydantic_2
      and u = "''https://example.com''" and u' = "''https://example.com/''" and s = Omitted
      and sel = None and w = 0 and t = "- 5"
      and request = request_nonpositive and w' = 0 and n = 0 and pw = pw_ok and t' = "- 5"]
  have url: "HttpUrl pydantic_2 ''https://example.com'' = Some ''https://example.com/'' \<and>
      optional (lax_str pydantic_2) None Omitted = Some (None :: string option)"
    by (simp add: pydantic_2_def)
  have w: "wait_time request_nonpositive = Some 0 \<and> (0::int) \<le> 0"
    by (simp add: request_nonpositive_def)
  have t: "timeout request_nonpositive = Some (- 5) \<and> (- 5::int) \<le> 0"
    by (simp add: request_nonpositive_def)
  have opens: "page_opens pw_ok"
    by (simp add: page_opens_def pw_ok_def)
  have "validate pydantic_2 \<lparr>json_url = Given ''https://example.com'', json_wait_for_selector = Omitted,
          json_wait_time = Given 0, json_timeout = Given (- 5)\<rparr> =
        Inr \<lparr>ScrapeRequest.url = ''https://example.com/'', wait_for_selector = None,
             wait_time = Some 0, timeout = Some (- 5)\<rparr>"
    using c10 url by blast
  then have "validate pydantic_2 body_nonpositive = Inr request_nonpositive"
    by (simp add: body_nonpositive_def request_nonpositive_def)
  moreover have "Sleep 0 \<notin> set (snd (scrape_url pw_ok request_nonpositive))"
    using c10 w by blast
  moreover have "Goto (ScrapeRequest.url request_nonpositive) (- 5 * 1000) ''networkidle''
      \<in> set (snd (scrape_url pw_ok request_nonpositive))"
    using c10 opens t by blast
  ultimately show ?thesis
    using w t by (simp add: request_nonpositive_def)
qed

end
